theory Spec2Isabelle
  imports Main
begin

section \<open>Signed transactions: a model of src/encode.js\<close>

text \<open>
  The module has two functions, \<open>createTransaction(privateKey)\<close> and
  \<open>verifyTransaction(transaction, publicKey)\<close>.  Both are translated line by line, in
  the order of their statements.  What they take from the platform (the system clock,
  \<open>Date\<close>, \<open>Buffer\<close> and \<open>node:crypto\<close>) is not code of the module: the clock reading
  is an explicit argument, and the library calls are the fields of a record \<open>host\<close>.
\<close>

subsection \<open>JavaScript values and objects\<close>

text \<open>
  The values a property can hold: \<open>undefined\<close> (also what reading an absent property
  gives), \<open>null\<close>, booleans, Numbers, BigInts, strings, arrays and plain objects.
  A Number is represented by its ECMAScript \<open>Number::toString\<close> text, so the literal
  \<open>10.2\<close> is \<open>JNum ''10.2''\<close> and the three Numbers that are not finite are
  \<open>JNum ''NaN''\<close>, \<open>JNum ''Infinity''\<close> and \<open>JNum ''-Infinity''\<close>; the two zeros have one
  text and are one value here.  Strings are sequences of 8-bit code units.  Functions,
  symbols and objects with a prototype of their own are outside the model.
\<close>

datatype jsval =
    JUndefined
  | JNull
  | JBool bool
  | JNum string
  | JBigInt int
  | JStr string
  | JArr "jsval list"
  | JObj "(string \<times> jsval) list"

text \<open>
  An object is the list of its own enumerable properties in property enumeration order:
  the keys that are array indices in ascending order, then the other keys in the order
  of their insertion.
\<close>

type_synonym jsobj = "(string \<times> jsval) list"

text \<open>What the module can throw: a \<open>TypeError\<close> (of \<open>JSON.stringify\<close>, \<open>new Date\<close>
  or \<open>Buffer.from\<close>), a \<open>RangeError\<close> (of \<open>Buffer.from\<close>), or an error of
  \<open>node:crypto\<close> (a key that is not a key).\<close>

datatype js_error = TypeError | RangeError | CryptoError

text \<open>\<open>obj.k\<close>: the value of the property, \<open>undefined\<close> when there is none.\<close>

definition getProperty :: "jsobj \<Rightarrow> string \<Rightarrow> jsval" where
  "getProperty obj k = (case map_of obj k of None \<Rightarrow> JUndefined | Some v \<Rightarrow> v)"

text \<open>The value of a string of decimal digits.\<close>

fun decimalValue :: "nat \<Rightarrow> string \<Rightarrow> nat option" where
  "decimalValue acc [] = Some acc"
| "decimalValue acc (c # cs) =
     (let d = (of_char c :: nat)
      in if 48 \<le> d \<and> d \<le> 57 then decimalValue (10 * acc + (d - 48)) cs else None)"

text \<open>A key is an array index when it is the canonical decimal text of an integer from
  0 to 4294967294.\<close>

definition arrayIndex :: "string \<Rightarrow> nat option" where
  "arrayIndex k =
     (if k \<noteq> [] \<and> (k = ''0'' \<or> hd k \<noteq> CHR ''0'')
      then (case decimalValue 0 k of
              None \<Rightarrow> None
            | Some n \<Rightarrow> if int n \<le> 4294967294 then Some n else None)
      else None)"

text \<open>
  \<open>obj.k = v\<close>, and the definition of a property by an object literal or \<open>JSON.parse\<close>:
  an existing property keeps its place; a new array index goes before the first property
  that is not a smaller array index; any other new key goes last.
\<close>

primrec replaceProperty :: "string \<Rightarrow> jsval \<Rightarrow> jsobj \<Rightarrow> jsobj" where
  "replaceProperty k v [] = []"
| "replaceProperty k v (p # ps) =
     (if fst p = k then (k, v) # ps else p # replaceProperty k v ps)"

primrec insertIndexed :: "nat \<Rightarrow> string \<times> jsval \<Rightarrow> jsobj \<Rightarrow> jsobj" where
  "insertIndexed n q [] = [q]"
| "insertIndexed n q (p # ps) =
     (case arrayIndex (fst p) of
        None \<Rightarrow> q # p # ps
      | Some m \<Rightarrow> if m < n then p # insertIndexed n q ps else q # p # ps)"

definition setProperty :: "string \<Rightarrow> jsval \<Rightarrow> jsobj \<Rightarrow> jsobj" where
  "setProperty k v obj =
     (if k \<in> set (map fst obj) then replaceProperty k v obj
      else (case arrayIndex k of
              None \<Rightarrow> obj @ [(k, v)]
            | Some n \<Rightarrow> insertIndexed n (k, v) obj))"

text \<open>The object that results from defining the listed properties one after the other,
  as an object literal and \<open>JSON.parse\<close> do.\<close>

definition objectOf :: "(string \<times> jsval) list \<Rightarrow> jsobj" where
  "objectOf entries = foldl (\<lambda>obj p. setProperty (fst p) (snd p) obj) [] entries"

text \<open>\<open>const { k, ...rest } = obj\<close>: the rest object holds the other properties, in
  their order.\<close>

definition restWithout :: "string \<Rightarrow> jsobj \<Rightarrow> jsobj" where
  "restWithout k obj = filter (\<lambda>p. fst p \<noteq> k) obj"

subsection \<open>JSON.stringify\<close>

definition dquote :: char where
  "dquote = CHR 0x22"

definition backslash :: char where
  "backslash = CHR 0x5C"

definition hexdigit :: "nat \<Rightarrow> char" where
  "hexdigit n = (if n < 10 then char_of (48 + n) else char_of (87 + n))"

text \<open>\<open>QuoteJSONString\<close>, one code unit: the two-character escapes, \<open>\u00hh\<close> for the
  other control characters, the code unit itself otherwise.\<close>

definition json_escape :: "char \<Rightarrow> string" where
  "json_escape c =
     (if c = CHR 0x08 then [backslash, CHR ''b'']
      else if c = CHR 0x09 then [backslash, CHR ''t'']
      else if c = CHR 0x0A then [backslash, CHR ''n'']
      else if c = CHR 0x0C then [backslash, CHR ''f'']
      else if c = CHR 0x0D then [backslash, CHR ''r'']
      else if c = dquote then [backslash, dquote]
      else if c = backslash then [backslash, backslash]
      else if (of_char c :: nat) < 32
        then [backslash, CHR ''u'', CHR ''0'', CHR ''0'',
              hexdigit (of_char c div 16), hexdigit (of_char c mod 16)]
      else [c])"

definition Quote :: "string \<Rightarrow> string" where
  "Quote s = dquote # concat (map json_escape s) @ [dquote]"

definition finiteNumber :: "string \<Rightarrow> bool" where
  "finiteNumber n = (n \<noteq> ''NaN'' \<and> n \<noteq> ''Infinity'' \<and> n \<noteq> ''-Infinity'')"

fun json_join :: "string list \<Rightarrow> string" where
  "json_join [] = []"
| "json_join [m] = m"
| "json_join (m # ms) = m @ '','' @ json_join ms"

text \<open>
  \<open>SerializeJSONProperty\<close>, with \<open>SerializeJSONArray\<close> and \<open>SerializeJSONObject\<close>, without
  indentation.  A BigInt throws a \<open>TypeError\<close>, wherever it stands.  \<open>Inr None\<close> is the
  result \<open>undefined\<close>: such a property is left out of an object, and written \<open>null\<close> in
  an array.  A Number that is not finite is written \<open>null\<close>.  The members of an object
  are \<open>"key":value\<close>, in the object's order.
\<close>

fun SerializeJSONProperty :: "jsval \<Rightarrow> js_error + string option"
  and json_elements :: "jsval list \<Rightarrow> js_error + string list"
  and json_members :: "(string \<times> jsval) list \<Rightarrow> js_error + string list" where
  "SerializeJSONProperty JUndefined = Inr None"
| "SerializeJSONProperty JNull = Inr (Some ''null'')"
| "SerializeJSONProperty (JBool b) = Inr (Some (if b then ''true'' else ''false''))"
| "SerializeJSONProperty (JNum n) = Inr (Some (if finiteNumber n then n else ''null''))"
| "SerializeJSONProperty (JBigInt i) = Inl TypeError"
| "SerializeJSONProperty (JStr s) = Inr (Some (Quote s))"
| "SerializeJSONProperty (JArr vs) =
     (case json_elements vs of
        Inl e \<Rightarrow> Inl e
      | Inr ms \<Rightarrow> Inr (Some (''['' @ json_join ms @ '']'')))"
| "SerializeJSONProperty (JObj ps) =
     (case json_members ps of
        Inl e \<Rightarrow> Inl e
      | Inr ms \<Rightarrow> Inr (Some (''{'' @ json_join ms @ ''}'')))"
| "json_elements [] = Inr []"
| "json_elements (v # vs) =
     (case SerializeJSONProperty v of
        Inl e \<Rightarrow> Inl e
      | Inr s \<Rightarrow>
          (case json_elements vs of
             Inl e \<Rightarrow> Inl e
           | Inr ms \<Rightarrow> Inr ((case s of None \<Rightarrow> ''null'' | Some t \<Rightarrow> t) # ms)))"
| "json_members [] = Inr []"
| "json_members (p # ps) =
     (case SerializeJSONProperty (snd p) of
        Inl e \<Rightarrow> Inl e
      | Inr s \<Rightarrow>
          (case json_members ps of
             Inl e \<Rightarrow> Inl e
           | Inr ms \<Rightarrow>
               Inr (case s of None \<Rightarrow> ms | Some t \<Rightarrow> (Quote (fst p) @ '':'' @ t) # ms)))"

text \<open>\<open>JSON.stringify(obj)\<close> for an object: its string, or the error thrown.\<close>

definition JSON_stringify :: "jsobj \<Rightarrow> js_error + string" where
  "JSON_stringify obj =
     (case json_members obj of
        Inl e \<Rightarrow> Inl e
      | Inr ms \<Rightarrow> Inr (''{'' @ json_join ms @ ''}''))"

subsection \<open>The platform\<close>

text \<open>
  \<^item> \<open>cryptoSign H key data\<close> is \<open>sign(Buffer.from(key), "base64")\<close> of a signer made
    by \<open>createSign("sha256")\<close> and fed \<open>data\<close>: the base64 text of the signature, or
    \<open>None\<close> when \<open>node:crypto\<close> throws.
  \<^item> \<open>cryptoVerify H key data bytes\<close> is \<open>verify(Buffer.from(key), bytes)\<close> of a
    verifier made by \<open>createVerify("sha256")\<close> and fed \<open>data\<close>: the boolean, or \<open>None\<close>
    when \<open>node:crypto\<close> throws.
  \<^item> \<open>base64Decode H s\<close> is the content of \<open>Buffer.from(s, "base64")\<close> for a string.
  \<^item> \<open>bufferFromObject H v\<close> is \<open>Buffer.from(v, "base64")\<close> for an array or an
    object: the content of the buffer, or the error thrown.
  \<^item> \<open>toISOString H t\<close> is \<open>new Date(t).toISOString()\<close> for a time value \<open>t\<close> in
    milliseconds since the epoch.
  \<^item> \<open>newDate H v\<close> is \<open>new Date(v)\<close>: the error thrown, or the time value of the
    date, where \<open>None\<close> is the invalid date, whose time value is \<open>NaN\<close>.
\<close>

record host =
  cryptoSign :: "string \<Rightarrow> string \<Rightarrow> string option"
  cryptoVerify :: "string \<Rightarrow> string \<Rightarrow> nat list \<Rightarrow> bool option"
  base64Decode :: "string \<Rightarrow> nat list"
  bufferFromObject :: "jsval \<Rightarrow> js_error + nat list"
  toISOString :: "int \<Rightarrow> string"
  newDate :: "jsval \<Rightarrow> js_error + int option"

text \<open>
  \<open>Buffer.from(v, "base64")\<close>.  A string is decoded, and no string is refused.  An
  array or an object is the platform's matter.  Every other value, being neither a string
  nor an object, throws a \<open>TypeError\<close>.
\<close>

definition Buffer_from :: "host \<Rightarrow> jsval \<Rightarrow> js_error + nat list" where
  "Buffer_from H v =
     (case v of
        JStr s \<Rightarrow> Inr (base64Decode H s)
      | JArr vs \<Rightarrow> bufferFromObject H v
      | JObj ps \<Rightarrow> bufferFromObject H v
      | _ \<Rightarrow> Inl TypeError)"

subsection \<open>createTransaction\<close>

definition ALGORITHM :: string where
  "ALGORITHM = ''sha256''"

text \<open>Lines 7 to 12: the object literal.  \<open>now\<close> is what \<open>new Date()\<close> reads off the
  clock.  None of the keys is an array index, so the properties stand as written.\<close>

definition unsignedValue :: "host \<Rightarrow> int \<Rightarrow> jsobj" where
  "unsignedValue H now =
     [(''currency'', JStr ''USD''),
      (''amount'', JNum ''10.2''),
      (''remark'', JStr ''Payment for service''),
      (''created_at'', JStr (toISOString H now))]"

text \<open>Lines 14 to 18: serialize the object, sign the string, then attach the
  signature.\<close>

definition createTransaction :: "host \<Rightarrow> string \<Rightarrow> int \<Rightarrow> js_error + jsobj" where
  "createTransaction H privateKey now =
     (let value = unsignedValue H now in
      case JSON_stringify value of
        Inl e \<Rightarrow> Inl e
      | Inr message \<Rightarrow>
          (case cryptoSign H privateKey message of
             None \<Rightarrow> Inl CryptoError
           | Some signature \<Rightarrow> Inr (setProperty ''signature'' (JStr signature) value)))"

subsection \<open>verifyTransaction\<close>

definition maximumWindowMs :: int where
  "maximumWindowMs = 5 * 60 * 1000"

text \<open>
  Line 32, \<open>currentDate - created_at >= maximumWindowMs\<close>.  The difference of an invalid
  date is \<open>NaN\<close>, and every comparison with \<open>NaN\<close> is false.  Time values are integers
  of magnitude at most 8.64e15; where their difference is not a double it is rounded, which
  moves it across no double, so the comparison with 300000 is the one of the integers.
\<close>

definition windowExceeded :: "int \<Rightarrow> int option \<Rightarrow> bool" where
  "windowExceeded currentDate created_at =
     (case created_at of None \<Rightarrow> False | Some t \<Rightarrow> currentDate - t \<ge> maximumWindowMs)"

text \<open>Lines 23 and 24: what \<open>JSON.stringify(value)\<close> gives for the rest object, the
  string the verifier is fed or the error thrown.\<close>

definition verifiedMessage :: "jsobj \<Rightarrow> js_error + string" where
  "verifiedMessage transaction = JSON_stringify (restWithout ''signature'' transaction)"

text \<open>Lines 36 to 39, for a verifier that was fed \<open>message\<close>: \<open>Buffer.from\<close> of the
  signature, then \<open>verify\<close>.\<close>

definition checkSignature :: "host \<Rightarrow> string \<Rightarrow> string \<Rightarrow> jsval \<Rightarrow> js_error + bool" where
  "checkSignature H publicKey message signature =
     (case Buffer_from H signature of
        Inl e \<Rightarrow> Inl e
      | Inr bytes \<Rightarrow>
          (case cryptoVerify H publicKey message bytes of
             None \<Rightarrow> Inl CryptoError
           | Some b \<Rightarrow> Inr b))"

text \<open>
  The whole function, in the order of its lines: the verifier is fed the serialized rest
  object (line 24, which throws what \<open>JSON.stringify\<close> throws); the clock is read
  (line 26, \<open>currentDate\<close>); \<open>created_at\<close> is made a date (line 27); the time check
  (line 32) returns \<open>false\<close>, or the signature is checked.
\<close>

definition verifyTransaction :: "host \<Rightarrow> jsobj \<Rightarrow> string \<Rightarrow> int \<Rightarrow> js_error + bool" where
  "verifyTransaction H transaction publicKey currentDate =
     (let signature = getProperty transaction ''signature'';
          value = restWithout ''signature'' transaction
      in case JSON_stringify value of
           Inl e \<Rightarrow> Inl e
         | Inr message \<Rightarrow>
             (case newDate H (getProperty value ''created_at'') of
                Inl e \<Rightarrow> Inl e
              | Inr created_at \<Rightarrow>
                  if windowExceeded currentDate created_at then Inr False
                  else checkSignature H publicKey message signature))"

text \<open>
  The same function with its effects recorded: the calls it makes to \<open>node:crypto\<close>, in
  order, and the return statement that ended it.  There are two return statements:
  line 33, \<open>return false\<close> of the time check, and line 36, which returns what
  \<open>verifier.verify\<close> answers.
\<close>

datatype crypto_call =
    CreateVerify string
  | VerifierUpdate string
  | VerifierVerify string "nat list"

datatype return_site = WindowReturn | VerifyReturn bool

primrec returned :: "return_site \<Rightarrow> bool" where
  "returned WindowReturn = False"
| "returned (VerifyReturn b) = b"

definition verifyTransaction_trace ::
  "host \<Rightarrow> jsobj \<Rightarrow> string \<Rightarrow> int \<Rightarrow> crypto_call list \<times> (js_error + return_site)" where
  "verifyTransaction_trace H transaction publicKey currentDate =
     (let signature = getProperty transaction ''signature'';
          value = restWithout ''signature'' transaction
      in case JSON_stringify value of
           Inl e \<Rightarrow> ([CreateVerify ALGORITHM], Inl e)
         | Inr message \<Rightarrow>
             (case newDate H (getProperty value ''created_at'') of
                Inl e \<Rightarrow> ([CreateVerify ALGORITHM, VerifierUpdate message], Inl e)
              | Inr created_at \<Rightarrow>
                  if windowExceeded currentDate created_at
                  then ([CreateVerify ALGORITHM, VerifierUpdate message], Inr WindowReturn)
                  else (case Buffer_from H signature of
                          Inl e \<Rightarrow> ([CreateVerify ALGORITHM, VerifierUpdate message], Inl e)
                        | Inr bytes \<Rightarrow>
                            ([CreateVerify ALGORITHM, VerifierUpdate message,
                              VerifierVerify publicKey bytes],
                             (case cryptoVerify H publicKey message bytes of
                                None \<Rightarrow> Inl CryptoError
                              | Some b \<Rightarrow> Inr (VerifyReturn b))))))"

definition verifyTransaction_site ::
  "host \<Rightarrow> jsobj \<Rightarrow> string \<Rightarrow> int \<Rightarrow> js_error + return_site" where
  "verifyTransaction_site H transaction publicKey currentDate =
     snd (verifyTransaction_trace H transaction publicKey currentDate)"

subsection \<open>Key pairs\<close>

text \<open>A private and a public key match when every message signed with the one verifies
  with the other.\<close>

definition matchingKeys :: "host \<Rightarrow> string \<Rightarrow> string \<Rightarrow> bool" where
  "matchingKeys H privateKey publicKey =
     (\<forall>m. \<exists>s. cryptoSign H privateKey m = Some s
             \<and> cryptoVerify H publicKey m (base64Decode H s) = Some True)"

text \<open>What an unforgeable scheme gives for one signature: under this public key it
  verifies no message but the one it was made for.\<close>

definition rejectsOtherMessages :: "host \<Rightarrow> string \<Rightarrow> string \<Rightarrow> nat list \<Rightarrow> bool" where
  "rejectsOtherMessages H publicKey message bytes =
     (\<forall>m. m \<noteq> message \<longrightarrow> cryptoVerify H publicKey m bytes = Some False)"

subsection \<open>Primitive values\<close>

text \<open>
  The text of a finite Number is made of digits, signs, a point and an exponent mark.
  A value is flat when it is \<open>undefined\<close>, \<open>null\<close>, a boolean, a finite Number or a
  string, and an object is flat when its values are.
\<close>

definition numberChars :: "char set" where
  "numberChars = set ''0123456789+-.e''"

definition wfNumber :: "string \<Rightarrow> bool" where
  "wfNumber n = (n \<noteq> [] \<and> set n \<subseteq> numberChars)"

fun flatValue :: "jsval \<Rightarrow> bool" where
  "flatValue JUndefined = True"
| "flatValue JNull = True"
| "flatValue (JBool b) = True"
| "flatValue (JNum n) = wfNumber n"
| "flatValue (JBigInt i) = False"
| "flatValue (JStr s) = True"
| "flatValue (JArr vs) = False"
| "flatValue (JObj ps) = False"

definition flatObject :: "jsobj \<Rightarrow> bool" where
  "flatObject obj = list_all (\<lambda>p. flatValue (snd p)) obj"

text \<open>A value is well formed when, if it is a Number, its text is the text of a
  Number: that of a finite one, or one of the three that are not finite.\<close>

fun wfValue :: "jsval \<Rightarrow> bool" where
  "wfValue (JNum n) = (wfNumber n \<or> \<not> finiteNumber n)"
| "wfValue v = True"

text \<open>The serialization of a flat value, and the members of a flat object.\<close>

fun primitiveText :: "jsval \<Rightarrow> string option" where
  "primitiveText JNull = Some ''null''"
| "primitiveText (JBool b) = Some (if b then ''true'' else ''false'')"
| "primitiveText (JNum n) = Some n"
| "primitiveText (JStr s) = Some (Quote s)"
| "primitiveText v = None"

definition flatMembers :: "jsobj \<Rightarrow> string list" where
  "flatMembers obj =
     List.map_filter
       (\<lambda>p. map_option (\<lambda>s. Quote (fst p) @ '':'' @ s) (primitiveText (snd p))) obj"

text \<open>The properties \<open>JSON.stringify\<close> does not skip.\<close>

definition definedProperties :: "jsobj \<Rightarrow> jsobj" where
  "definedProperties obj = filter (\<lambda>p. snd p \<noteq> JUndefined) obj"

text \<open>What follows a member in the output: a comma or the closing brace.\<close>

definition delimited :: "string \<Rightarrow> bool" where
  "delimited r = (\<exists>t. r = CHR '','' # t \<or> r = CHR ''}'' # t)"

text \<open>What follows the first member of a list of members.\<close>

definition memberTail :: "string list \<Rightarrow> string" where
  "memberTail ms = (if ms = [] then ''}'' else '','' @ json_join ms @ ''}'')"

section \<open>A reference platform\<close>

text \<open>
  One concrete \<open>host\<close>, on which the examples run.  Its dates are the ECMAScript ones:
  \<open>isoString\<close> is \<open>Date.prototype.toISOString\<close> (the proleptic Gregorian calendar,
  four-digit years, six digits with a sign outside 0..9999), and \<open>isoTime\<close> reads a
  string of exactly that format back.  Its base64 is the standard alphabet.  Its
  signatures are a stand-in, with one key pair.
\<close>

subsection \<open>Dates\<close>

definition msPerDay :: int where
  "msPerDay = 86400000"

definition civilFromDays :: "int \<Rightarrow> int \<times> int \<times> int" where
  "civilFromDays days =
     (let z = days + 719468;
          era = z div 146097;
          doe = z mod 146097;
          yoe = (doe - doe div 1460 + doe div 36524 - doe div 146096) div 365;
          doy = doe - (365 * yoe + yoe div 4 - yoe div 100);
          mp = (5 * doy + 2) div 153;
          d = doy - (153 * mp + 2) div 5 + 1;
          m = (if mp < 10 then mp + 3 else mp - 9)
      in (yoe + era * 400 + (if m \<le> 2 then 1 else 0), m, d))"

definition daysFromCivil :: "int \<Rightarrow> int \<Rightarrow> int \<Rightarrow> int" where
  "daysFromCivil y m d =
     (let y' = (if m \<le> 2 then y - 1 else y);
          era = y' div 400;
          yoe = y' mod 400;
          doy = (153 * (if m > 2 then m - 3 else m + 9) + 2) div 5 + d - 1;
          doe = yoe * 365 + yoe div 4 - yoe div 100 + doy
      in era * 146097 + doe - 719468)"

primrec padded :: "nat \<Rightarrow> nat \<Rightarrow> string" where
  "padded 0 n = []"
| "padded (Suc w) n = padded w (n div 10) @ [char_of (48 + n mod 10)]"

definition isoString :: "int \<Rightarrow> string" where
  "isoString t =
     (let (y, m, d) = civilFromDays (t div msPerDay);
          r = t mod msPerDay
      in (if 0 \<le> y \<and> y \<le> 9999 then padded 4 (nat y)
          else (if y < 0 then ''-'' else ''+'') @ padded 6 (nat \<bar>y\<bar>))
         @ ''-'' @ padded 2 (nat m) @ ''-'' @ padded 2 (nat d)
         @ ''T'' @ padded 2 (nat (r div 3600000))
         @ '':'' @ padded 2 (nat (r mod 3600000 div 60000))
         @ '':'' @ padded 2 (nat (r mod 60000 div 1000))
         @ ''.'' @ padded 3 (nat (r mod 1000)) @ ''Z'')"

definition maxTime :: int where
  "maxTime = 8640000000000000"

definition isoTime :: "string \<Rightarrow> int option" where
  "isoTime s =
     (let expanded = (length s = 27);
          year = (if expanded then take 6 (drop 1 s) else take 4 s);
          rest = (if expanded then drop 7 s else drop 4 s)
      in case (decimalValue 0 year,
               decimalValue 0 (take 2 (drop 1 rest)), decimalValue 0 (take 2 (drop 4 rest)),
               decimalValue 0 (take 2 (drop 7 rest)), decimalValue 0 (take 2 (drop 10 rest)),
               decimalValue 0 (take 2 (drop 13 rest)), decimalValue 0 (take 3 (drop 16 rest))) of
           (Some y, Some mo, Some d, Some h, Some mi, Some sec, Some ms) \<Rightarrow>
             (let t = daysFromCivil (if take 1 s = ''-'' then - int y else int y) (int mo) (int d)
                        * msPerDay
                      + int h * 3600000 + int mi * 60000 + int sec * 1000 + int ms
              in if isoString t = s \<and> \<bar>t\<bar> \<le> maxTime then Some t else None)
         | _ \<Rightarrow> None)"

text \<open>The integer part of the text of a Number, with its sign; the text of a Number
  with an exponent is below 1e-6 (\<open>e-\<close>) or at least 1e21 (\<open>e+\<close>).\<close>

definition integerPart :: "string \<Rightarrow> (bool \<times> nat) option" where
  "integerPart n =
     (let negative = (take 1 n = ''-'')
      in map_option (\<lambda>k. (negative, k))
           (decimalValue 0 (takeWhile (\<lambda>c. c \<noteq> CHR ''.'') (if negative then drop 1 n else n))))"

text \<open>\<open>new Date(n)\<close> for the text of a Number: its integer part, if that is a time
  value.\<close>

definition numberTime :: "string \<Rightarrow> int option" where
  "numberTime n =
     (if CHR ''e'' \<in> set n
      then (if CHR ''-'' \<in> set (dropWhile (\<lambda>c. c \<noteq> CHR ''e'') n) then Some 0 else None)
      else (case integerPart n of
              None \<Rightarrow> None
            | Some (negative, k) \<Rightarrow>
                if int k \<le> maxTime then Some (if negative then - int k else int k)
                else None))"

text \<open>
  The string \<open>new Date\<close> parses for an array or an object: the elements of an array
  joined by commas (\<open>null\<close> and \<open>undefined\<close> give the empty string), \<open>[object Object]\<close>
  for an object; an object with a property \<open>toString\<close> of its own, which is no function,
  cannot be converted and throws.  No value with a BigInt inside reaches \<open>new Date\<close>:
  \<open>JSON.stringify\<close> has thrown before.
\<close>

fun dateText :: "jsval \<Rightarrow> js_error + string"
  and dateTexts :: "jsval list \<Rightarrow> js_error + string list" where
  "dateText JUndefined = Inr ''undefined''"
| "dateText JNull = Inr ''null''"
| "dateText (JBool b) = Inr (if b then ''true'' else ''false'')"
| "dateText (JNum n) = Inr n"
| "dateText (JBigInt i) = Inl TypeError"
| "dateText (JStr s) = Inr s"
| "dateText (JArr vs) =
     (case dateTexts vs of Inl e \<Rightarrow> Inl e | Inr ts \<Rightarrow> Inr (json_join ts))"
| "dateText (JObj ps) =
     (if ''toString'' \<in> set (map fst ps) then Inl TypeError else Inr ''[object Object]'')"
| "dateTexts [] = Inr []"
| "dateTexts (v # vs) =
     (case (if v = JUndefined \<or> v = JNull then Inr [] else dateText v) of
        Inl e \<Rightarrow> Inl e
      | Inr t \<Rightarrow> (case dateTexts vs of Inl e \<Rightarrow> Inl e | Inr ts \<Rightarrow> Inr (t # ts)))"

text \<open>\<open>new Date(v)\<close>: a string is parsed (any string not in the \<open>toISOString\<close> format
  is an invalid date here), an array or object is parsed as its string, the other values
  are converted to a Number.\<close>

definition demoNewDate :: "jsval \<Rightarrow> js_error + int option" where
  "demoNewDate v =
     (case v of
        JUndefined \<Rightarrow> Inr None
      | JNull \<Rightarrow> Inr (Some 0)
      | JBool b \<Rightarrow> Inr (Some (if b then 1 else 0))
      | JNum n \<Rightarrow> Inr (numberTime n)
      | JBigInt i \<Rightarrow> Inl TypeError
      | JStr s \<Rightarrow> Inr (isoTime s)
      | _ \<Rightarrow> (case dateText v of Inl e \<Rightarrow> Inl e | Inr s \<Rightarrow> Inr (isoTime s)))"

subsection \<open>Buffers\<close>

definition base64Char :: "nat \<Rightarrow> char" where
  "base64Char n =
     (if n < 26 then char_of (65 + n)
      else if n < 52 then char_of (71 + n)
      else if n < 62 then char_of (n - 4)
      else if n = 62 then CHR ''+'' else CHR ''/'')"

text \<open>The decoder also accepts the URL alphabet, \<open>-\<close> (45) for \<open>+\<close> (43) and \<open>_\<close> (95)
  for \<open>/\<close> (47).\<close>

definition base64Value :: "char \<Rightarrow> nat option" where
  "base64Value c =
     (let n = (of_char c :: nat)
      in if 65 \<le> n \<and> n \<le> 90 then Some (n - 65)
         else if 97 \<le> n \<and> n \<le> 122 then Some (n - 71)
         else if 48 \<le> n \<and> n \<le> 57 then Some (n + 4)
         else if n = 43 \<or> n = 45 then Some 62
         else if n = 47 \<or> n = 95 then Some 63
         else None)"

fun base64Encode :: "nat list \<Rightarrow> string" where
  "base64Encode [] = []"
| "base64Encode [a] =
     [base64Char (a div 4), base64Char (a mod 4 * 16), CHR ''='', CHR ''='']"
| "base64Encode [a, b] =
     [base64Char (a div 4), base64Char (a mod 4 * 16 + b div 16), base64Char (b mod 16 * 4),
      CHR ''='']"
| "base64Encode (a # b # c # bytes) =
     [base64Char (a div 4), base64Char (a mod 4 * 16 + b div 16),
      base64Char (b mod 16 * 4 + c div 64), base64Char (c mod 64)] @ base64Encode bytes"

fun sextetBytes :: "nat list \<Rightarrow> nat list" where
  "sextetBytes (w # x # y # z # sextets) =
     [w * 4 + x div 16, x mod 16 * 16 + y div 4, y mod 4 * 64 + z] @ sextetBytes sextets"
| "sextetBytes [w, x, y] = [w * 4 + x div 16, x mod 16 * 16 + y div 4]"
| "sextetBytes [w, x] = [w * 4 + x div 16]"
| "sextetBytes sextets = []"

text \<open>\<open>Buffer.from(s, "base64")\<close>: characters outside the alphabet are skipped, and
  the first \<open>=\<close> ends the data.\<close>

definition base64Bytes :: "string \<Rightarrow> nat list" where
  "base64Bytes s =
     sextetBytes (List.map_filter base64Value (takeWhile (\<lambda>c. c \<noteq> CHR ''='') s))"

text \<open>The byte an element of an array becomes: a Number is truncated and taken modulo
  256; \<open>NaN\<close>, to which \<open>undefined\<close>, arrays and objects convert here, is 0.  Strings
  are read as decimal digits.  A BigInt cannot be converted.\<close>

definition numberByte :: "string \<Rightarrow> nat" where
  "numberByte n =
     (if CHR ''e'' \<in> set n then 0
      else (case integerPart n of
              None \<Rightarrow> 0
            | Some (negative, k) \<Rightarrow> if negative then (256 - k mod 256) mod 256 else k mod 256))"

definition elementByte :: "jsval \<Rightarrow> js_error + nat" where
  "elementByte v =
     (case v of
        JBool b \<Rightarrow> Inr (if b then 1 else 0)
      | JNum n \<Rightarrow> Inr (numberByte n)
      | JBigInt i \<Rightarrow> Inl TypeError
      | JStr s \<Rightarrow> Inr (case decimalValue 0 s of None \<Rightarrow> 0 | Some k \<Rightarrow> k mod 256)
      | _ \<Rightarrow> Inr 0)"

fun elementBytes :: "jsval list \<Rightarrow> js_error + nat list" where
  "elementBytes [] = Inr []"
| "elementBytes (v # vs) =
     (case elementByte v of
        Inl e \<Rightarrow> Inl e
      | Inr b \<Rightarrow> (case elementBytes vs of Inl e \<Rightarrow> Inl e | Inr bs \<Rightarrow> Inr (b # bs)))"

text \<open>
  \<open>Buffer.from\<close> of an array takes its elements.  Of an object it takes the \<open>data\<close> of
  what \<open>Buffer.prototype.toJSON\<close> writes, \<open>{type: "Buffer", data: [...]}\<close>; any other
  object is refused here, array-like objects too.
\<close>

definition demoBufferFromObject :: "jsval \<Rightarrow> js_error + nat list" where
  "demoBufferFromObject v =
     (case v of
        JArr vs \<Rightarrow> elementBytes vs
      | JObj ps \<Rightarrow>
          (case (getProperty ps ''type'', getProperty ps ''data'') of
             (JStr t, JArr vs) \<Rightarrow>
               if t = ''Buffer'' \<and> map fst ps = [''type'', ''data''] then elementBytes vs
               else Inl TypeError
           | _ \<Rightarrow> Inl TypeError)
      | _ \<Rightarrow> Inl TypeError)"

subsection \<open>Signatures\<close>

definition demoPrivateKey :: string where
  "demoPrivateKey = ''demo private key''"

definition demoPublicKey :: string where
  "demoPublicKey = ''demo public key''"

text \<open>The stand-in signature of a message is the message behind a tag, as bytes.  Any
  other key makes the library throw.\<close>

definition demoSignatureBytes :: "string \<Rightarrow> nat list" where
  "demoSignatureBytes msg = map of_char (''signed:'' @ msg)"

definition demoSign :: "string \<Rightarrow> string \<Rightarrow> string option" where
  "demoSign key msg =
     (if key = demoPrivateKey then Some (base64Encode (demoSignatureBytes msg)) else None)"

definition demoVerify :: "string \<Rightarrow> string \<Rightarrow> nat list \<Rightarrow> bool option" where
  "demoVerify key msg bytes =
     (if key = demoPublicKey then Some (bytes = demoSignatureBytes msg) else None)"

definition demoHost :: host where
  "demoHost = \<lparr> cryptoSign = demoSign, cryptoVerify = demoVerify,
                 base64Decode = base64Bytes, bufferFromObject = demoBufferFromObject,
                 toISOString = isoString, newDate = demoNewDate \<rparr>"

subsection \<open>The example transaction\<close>

text \<open>The clock reads 2024-11-18T07:13:42.582Z.\<close>

definition demoClock :: int where
  "demoClock = 1731914022582"

definition demoUnsigned :: jsobj where
  "demoUnsigned =
     [(''currency'', JStr ''USD''),
      (''amount'', JNum ''10.2''),
      (''remark'', JStr ''Payment for service''),
      (''created_at'', JStr ''2024-11-18T07:13:42.582Z'')]"

text \<open>The string \<open>JSON.stringify\<close> writes for it.\<close>

definition demoMessage :: string where
  "demoMessage =
     ''{'' @ Quote ''currency'' @ '':'' @ Quote ''USD''
     @ '','' @ Quote ''amount'' @ '':10.2''
     @ '','' @ Quote ''remark'' @ '':'' @ Quote ''Payment for service''
     @ '','' @ Quote ''created_at'' @ '':'' @ Quote ''2024-11-18T07:13:42.582Z'' @ ''}''"

definition demoSignature :: string where
  "demoSignature = base64Encode (demoSignatureBytes demoMessage)"

definition demoTransaction :: jsobj where
  "demoTransaction = demoUnsigned @ [(''signature'', JStr demoSignature)]"

text \<open>The same four fields with \<open>amount\<close> inserted first.\<close>

definition demoReordered :: jsobj where
  "demoReordered =
     [(''amount'', JNum ''10.2''),
      (''currency'', JStr ''USD''),
      (''remark'', JStr ''Payment for service''),
      (''created_at'', JStr ''2024-11-18T07:13:42.582Z'')]"

text \<open>The example transaction with \<open>created_at\<close> moved ten minutes back.\<close>

definition demoBackdated :: jsobj where
  "demoBackdated = setProperty ''created_at'' (JStr ''2024-11-18T07:03:42.582Z'') demoTransaction"

text \<open>The example transaction with a BigInt for its amount.\<close>

definition demoBigInt :: jsobj where
  "demoBigInt = setProperty ''amount'' (JBigInt 10) demoTransaction"

subsection \<open>The signer of the specification\<close>

text \<open>
  The specification's contract \<open>sign(transaction_without_signature, private_key)\<close>, in
  its words: the signed transaction carries the supplied \<open>currency\<close>, \<open>amount\<close> and
  \<open>remark\<close> unchanged, and \<open>created_at\<close> is set only if absent, so a supplied one is
  kept.  It is stated here to be compared with \<open>createTransaction\<close>.
\<close>

definition signerContract :: "jsobj \<Rightarrow> jsobj \<Rightarrow> bool" where
  "signerContract supplied signed =
     (getProperty signed ''currency'' = getProperty supplied ''currency''
      \<and> getProperty signed ''amount'' = getProperty supplied ''amount''
      \<and> getProperty signed ''remark'' = getProperty supplied ''remark''
      \<and> (if getProperty supplied ''created_at'' = JUndefined then True
         else getProperty signed ''created_at'' = getProperty supplied ''created_at''))"

text \<open>A transaction a caller might want signed.\<close>

definition suppliedExample :: jsobj where
  "suppliedExample =
     [(''currency'', JStr ''EUR''),
      (''amount'', JNum ''5''),
      (''remark'', JStr ''Coffee''),
      (''created_at'', JStr ''2020-01-01T00:00:00.000Z'')]"

section \<open>Properties\<close>

subsection \<open>Objects\<close>

lemma getProperty_restWithout:
  "k \<noteq> k' \<Longrightarrow> getProperty (restWithout k' obj) k = getProperty obj k"
  by (induction obj) (auto simp: getProperty_def restWithout_def)

lemma getProperty_restWithout_same: "getProperty (restWithout k obj) k = JUndefined"
  by (induction obj) (auto simp: getProperty_def restWithout_def)

lemma getProperty_replaceProperty:
  "k \<in> set (map fst obj) \<Longrightarrow>
     getProperty (replaceProperty k v obj) k' = (if k' = k then v else getProperty obj k')"
proof (induction obj)
  case Nil
  then show ?case by simp
next
  case (Cons p ps)
  show ?case
  proof (cases "fst p = k")
    case True
    then show ?thesis by (simp add: getProperty_def)
  next
    case False
    with Cons.prems have "k \<in> set (map fst ps)" by simp
    from Cons.IH [OF this] False show ?thesis
      unfolding getProperty_def by (simp split: if_splits)
  qed
qed

lemma getProperty_insertIndexed:
  "k \<notin> set (map fst obj) \<Longrightarrow>
     getProperty (insertIndexed n (k, v) obj) k' = (if k' = k then v else getProperty obj k')"
  by (induction obj) (auto simp: getProperty_def split: option.splits)

lemma getProperty_append:
  "k \<notin> set (map fst obj) \<Longrightarrow>
     getProperty (obj @ [(k, v)]) k' = (if k' = k then v else getProperty obj k')"
  by (induction obj) (auto simp: getProperty_def)

lemma getProperty_setProperty:
  "getProperty (setProperty k v obj) k' = (if k' = k then v else getProperty obj k')"
  unfolding setProperty_def
  by (simp add: getProperty_replaceProperty getProperty_insertIndexed getProperty_append
      split: option.split)

lemma restWithout_replaceProperty: "restWithout k (replaceProperty k v obj) = restWithout k obj"
  by (induction obj) (auto simp: restWithout_def)

lemma restWithout_insertIndexed:
  "restWithout k (insertIndexed n (k, v) obj) = restWithout k obj"
  by (induction obj) (auto simp: restWithout_def split: option.splits)

lemma restWithout_setProperty_same:
  "restWithout k (setProperty k v obj) = restWithout k obj"
  unfolding setProperty_def
  by (simp add: restWithout_replaceProperty restWithout_insertIndexed split: option.split)
     (simp add: restWithout_def)

lemma replaceProperty_append:
  "k \<in> set (map fst obj) \<Longrightarrow> replaceProperty k v (obj @ [p]) = replaceProperty k v obj @ [p]"
  by (induction obj) auto

lemma setProperty_append_signature:
  "k \<in> set (map fst obj) \<Longrightarrow> setProperty k v (obj @ [p]) = setProperty k v obj @ [p]"
  by (simp add: setProperty_def replaceProperty_append)

lemma restWithout_append_signature:
  "''signature'' \<notin> set (map fst obj) \<Longrightarrow>
     restWithout ''signature'' (obj @ [(''signature'', v)]) = obj"
  by (induction obj) (auto simp: restWithout_def)

lemma keys_replaceProperty: "map fst (replaceProperty k v obj) = map fst obj"
  by (induction obj) auto

lemma keys_setProperty:
  "k \<in> set (map fst obj) \<Longrightarrow> map fst (setProperty k v obj) = map fst obj"
  by (simp add: setProperty_def keys_replaceProperty)

lemma flatObject_replaceProperty:
  "flatObject obj \<Longrightarrow> flatValue v \<Longrightarrow> flatObject (replaceProperty k v obj)"
  by (induction obj) (auto simp: flatObject_def)

lemma flatObject_insertIndexed:
  "flatObject obj \<Longrightarrow> flatValue v \<Longrightarrow> flatObject (insertIndexed n (k, v) obj)"
  by (induction obj) (auto simp: flatObject_def split: option.splits)

lemma flatObject_setProperty:
  "flatObject obj \<Longrightarrow> flatValue v \<Longrightarrow> flatObject (setProperty k v obj)"
  unfolding setProperty_def
  by (simp add: flatObject_replaceProperty flatObject_insertIndexed split: option.split)
     (simp add: flatObject_def)

lemma arrayIndex_signature: "arrayIndex ''signature'' = None"
  by (simp add: arrayIndex_def)

lemma setProperty_new_signature:
  "''signature'' \<notin> set (map fst obj) \<Longrightarrow>
     setProperty ''signature'' v obj = obj @ [(''signature'', v)]"
  by (simp add: setProperty_def arrayIndex_signature)

subsection \<open>The serialization of flat objects is injective\<close>

lemma of_char_hexdigit: "n < 16 \<Longrightarrow> (of_char (hexdigit n) :: nat) = (if n < 10 then 48 + n else 87 + n)"
  by (simp add: hexdigit_def)

lemma hexdigit_inj: "a < 16 \<Longrightarrow> b < 16 \<Longrightarrow> hexdigit a = hexdigit b \<Longrightarrow> a = b"
proof -
  assume a: "a < 16" and b: "b < 16" and e: "hexdigit a = hexdigit b"
  from e have "(of_char (hexdigit a) :: nat) = of_char (hexdigit b)" by simp
  with a b show "a = b" by (simp add: of_char_hexdigit split: if_splits)
qed

text \<open>The three shapes of an escape.\<close>

lemma json_escape_cases:
  "json_escape c = [c] \<and> c \<noteq> backslash \<and> c \<noteq> dquote
   \<or> (\<exists>x. json_escape c = [backslash, x] \<and> x \<noteq> CHR ''u'')
   \<or> (json_escape c = [backslash, CHR ''u'', CHR ''0'', CHR ''0'',
              hexdigit (of_char c div 16), hexdigit (of_char c mod 16)] \<and> (of_char c :: nat) < 32)"
  by (simp add: json_escape_def dquote_def backslash_def)

lemma json_escape_short_inj:
  "json_escape c = [backslash, x] \<Longrightarrow> json_escape c' = [backslash, x] \<Longrightarrow> c = c'"
  by (auto simp: json_escape_def dquote_def backslash_def split: if_splits)

lemma json_escape_long_inj:
  assumes "(of_char c :: nat) < 32" "(of_char c' :: nat) < 32"
    and "hexdigit (of_char c div 16) = hexdigit (of_char c' div 16)"
    and "hexdigit (of_char c mod 16) = hexdigit (of_char c' mod 16)"
  shows "c = c'"
proof -
  have "(of_char c :: nat) div 16 = of_char c' div 16"
    using assms(1,2,3) by (intro hexdigit_inj) auto
  moreover have "(of_char c :: nat) mod 16 = of_char c' mod 16"
    using assms(4) by (intro hexdigit_inj) auto
  ultimately have "(of_char c :: nat) = of_char c'"
    by (metis div_mult_mod_eq)
  then show ?thesis by simp
qed

lemma json_escape_prefix_free:
  assumes "json_escape c @ r = json_escape c' @ r'"
  shows "c = c' \<and> r = r'"
proof -
  from json_escape_cases [of c] json_escape_cases [of c'] assms
  show ?thesis
    by (elim disjE conjE exE)
       (auto dest: json_escape_short_inj json_escape_long_inj)
qed

lemma json_escape_not_dquote: "json_escape c @ r \<noteq> dquote # r'"
  using json_escape_cases [of c] by (auto simp: dquote_def backslash_def)

lemma escaped_prefix_free:
  "concat (map json_escape s) @ dquote # r = concat (map json_escape s') @ dquote # r'
   \<Longrightarrow> s = s' \<and> r = r'"
proof (induction s arbitrary: s')
  case Nil
  show ?case
  proof (cases s')
    case Nil
    with Nil.prems show ?thesis by simp
  next
    case (Cons c' s'')
    with Nil.prems show ?thesis
      using json_escape_not_dquote [of c' "concat (map json_escape s'') @ dquote # r'" r] by simp
  qed
next
  case (Cons c s)
  show ?case
  proof (cases s')
    case Nil
    with Cons.prems show ?thesis
      using json_escape_not_dquote [of c "concat (map json_escape s) @ dquote # r" r'] by simp
  next
    case (Cons c' s'')
    with Cons.prems have
      "json_escape c @ (concat (map json_escape s) @ dquote # r)
       = json_escape c' @ (concat (map json_escape s'') @ dquote # r')" by simp
    from json_escape_prefix_free [OF this] Cons.IH [of s''] Cons show ?thesis by simp
  qed
qed

lemma Quote_prefix_free: "Quote s @ r = Quote s' @ r' \<Longrightarrow> s = s' \<and> r = r'"
  using escaped_prefix_free [of s r s' r'] by (simp add: Quote_def)

lemma number_prefix_free:
  assumes "set n \<subseteq> numberChars" "set n' \<subseteq> numberChars" "delimited r" "delimited r'"
    and "n @ r = n' @ r'"
  shows "n = n' \<and> r = r'"
  using assms
proof (induction n arbitrary: n')
  case Nil
  then show ?case
    by (cases n') (auto simp: delimited_def numberChars_def)
next
  case (Cons c n)
  then show ?case
    by (cases n') (auto simp: delimited_def numberChars_def)
qed

lemma serialized_head:
  assumes "primitiveText v = Some a" "flatValue v"
  shows "a \<noteq> [] \<and>
         (case v of
            JUndefined \<Rightarrow> False
          | JNull \<Rightarrow> hd a = CHR ''n''
          | JBool b \<Rightarrow> hd a = (if b then CHR ''t'' else CHR ''f'')
          | JNum n \<Rightarrow> hd a \<in> numberChars
          | JStr s \<Rightarrow> hd a = dquote
          | _ \<Rightarrow> False)"
  using assms by (cases v) (auto simp: wfNumber_def Quote_def)

lemma value_prefix_free:
  assumes "primitiveText v = Some a" "primitiveText v' = Some a'"
    and "flatValue v" "flatValue v'" "delimited r" "delimited r'"
    and "a @ r = a' @ r'"
  shows "v = v' \<and> r = r'"
proof -
  note h = serialized_head [OF assms(1,3)] and h' = serialized_head [OF assms(2,4)]
  from h h' assms(7) have hd: "hd a = hd a'"
    by (metis hd_append2)
  show ?thesis
  proof (cases v)
    case JUndefined
    with assms(1) show ?thesis by simp
  next
    case JNull
    with h h' hd have "v' = JNull"
      by (cases v') (auto simp: numberChars_def dquote_def split: if_splits)
    with JNull assms show ?thesis by simp
  next
    case (JBool b)
    with h h' hd have "v' = JBool b"
      by (cases v') (auto simp: numberChars_def dquote_def split: if_splits)
    with JBool assms show ?thesis by simp
  next
    case (JNum n)
    with h h' hd obtain n' where v': "v' = JNum n'"
      by (cases v') (auto simp: numberChars_def dquote_def split: if_splits)
    with JNum assms have "n = n' \<and> r = r'"
      by (intro number_prefix_free) (auto simp: wfNumber_def)
    with JNum v' show ?thesis by simp
  next
    case (JStr s)
    with h h' hd obtain s' where v': "v' = JStr s'"
      by (cases v') (auto simp: numberChars_def dquote_def split: if_splits)
    with JStr assms have "s = s' \<and> r = r'"
      by (intro Quote_prefix_free) auto
    with JStr v' show ?thesis by simp
  qed (use assms(1) in simp_all)
qed

lemma serialized_iff: "flatValue v \<Longrightarrow> (primitiveText v = None) = (v = JUndefined)"
  by (cases v) auto

lemma flat_defined_Some:
  "flatValue v \<Longrightarrow> v \<noteq> JUndefined \<Longrightarrow> \<exists>a. primitiveText v = Some a"
  by (cases v) auto

lemma flatMembers_Nil: "flatMembers [] = []"
  by (simp add: flatMembers_def List.map_filter_simps)

lemma flatMembers_Cons:
  "flatMembers (p # ps) =
     (case primitiveText (snd p) of
        None \<Rightarrow> flatMembers ps
      | Some a \<Rightarrow> (Quote (fst p) @ '':'' @ a) # flatMembers ps)"
  by (simp add: flatMembers_def List.map_filter_simps split: option.split)

lemma flatMembers_defined: "flatMembers (definedProperties obj) = flatMembers obj"
  by (induction obj) (auto simp: definedProperties_def flatMembers_Cons split: option.split)

lemma json_join_Cons: "json_join (m # ms) @ ''}'' = m @ memberTail ms"
  by (cases ms) (auto simp: memberTail_def)

lemma delimited_memberTail: "delimited (memberTail ms)"
  by (simp add: memberTail_def delimited_def)

lemma memberTail_inj:
  "memberTail ms = memberTail ms' \<Longrightarrow>
     (ms = [] \<and> ms' = []) \<or> (ms \<noteq> [] \<and> ms' \<noteq> [] \<and> json_join ms @ ''}'' = json_join ms' @ ''}'')"
  by (auto simp: memberTail_def split: if_splits)

lemma flatMembers_eq_Nil:
  "list_all (\<lambda>p. snd p \<noteq> JUndefined) xs \<Longrightarrow> flatObject xs \<Longrightarrow>
     (flatMembers xs = []) = (xs = [])"
  by (cases xs)
     (auto simp: flatMembers_Nil flatMembers_Cons serialized_iff flatObject_def
           split: option.split)

lemma members_inj:
  assumes "list_all (\<lambda>p. snd p \<noteq> JUndefined) xs" "list_all (\<lambda>p. snd p \<noteq> JUndefined) ys"
    and "flatObject xs" "flatObject ys"
    and "json_join (flatMembers xs) @ ''}'' = json_join (flatMembers ys) @ ''}''"
  shows "xs = ys"
  using assms
proof (induction xs arbitrary: ys)
  case Nil
  show ?case
  proof (cases ys)
    case Nil
    then show ?thesis by simp
  next
    case (Cons y ys')
    with Nil.prems obtain a where "primitiveText (snd y) = Some a"
      using flat_defined_Some by (fastforce simp: flatObject_def)
    with Nil.prems Cons show ?thesis
      by (simp add: flatMembers_Nil flatMembers_Cons json_join_Cons Quote_def dquote_def
               del: json_join.simps(2,3))
  qed
next
  case (Cons x xs)
  from Cons.prems obtain a where a: "primitiveText (snd x) = Some a"
    using flat_defined_Some by (fastforce simp: flatObject_def)
  show ?case
  proof (cases ys)
    case Nil
    with Cons.prems a show ?thesis
      by (simp add: flatMembers_Nil flatMembers_Cons json_join_Cons Quote_def dquote_def
               del: json_join.simps(2,3))
  next
    case (Cons y ys')
    with Cons.prems obtain a' where a': "primitiveText (snd y) = Some a'"
      using flat_defined_Some by (fastforce simp: flatObject_def)
    from Cons.prems(5) a a' Cons have
      "Quote (fst x) @ ('':'' @ a @ memberTail (flatMembers xs))
       = Quote (fst y) @ ('':'' @ a' @ memberTail (flatMembers ys'))"
      by (simp add: flatMembers_Cons json_join_Cons del: json_join.simps(2,3))
    from Quote_prefix_free [OF this] have k: "fst x = fst y"
      and e: "a @ memberTail (flatMembers xs) = a' @ memberTail (flatMembers ys')"
      by simp_all
    from Cons.prems Cons have wf: "flatValue (snd x)" "flatValue (snd y)"
      by (simp_all add: flatObject_def)
    from value_prefix_free [OF a a' wf delimited_memberTail delimited_memberTail e]
    have v: "snd x = snd y" and t: "memberTail (flatMembers xs) = memberTail (flatMembers ys')"
      by simp_all
    from Cons.prems Cons have d: "list_all (\<lambda>p. snd p \<noteq> JUndefined) xs"
      "list_all (\<lambda>p. snd p \<noteq> JUndefined) ys'" "flatObject xs" "flatObject ys'"
      by (simp_all add: flatObject_def)
    from memberTail_inj [OF t] have "xs = ys'"
    proof
      assume "flatMembers xs = [] \<and> flatMembers ys' = []"
      with d show ?thesis by (simp add: flatMembers_eq_Nil)
    next
      assume "flatMembers xs \<noteq> [] \<and> flatMembers ys' \<noteq> [] \<and>
        json_join (flatMembers xs) @ ''}'' = json_join (flatMembers ys') @ ''}''"
      with Cons.IH [OF d] show ?thesis by simp
    qed
    with k v Cons show ?thesis by (simp add: prod_eq_iff)
  qed
qed


lemma wfNumber_finite: "wfNumber n \<Longrightarrow> finiteNumber n"
  by (auto simp: wfNumber_def finiteNumber_def numberChars_def)

lemma SerializeJSONProperty_flat:
  "flatValue v \<Longrightarrow> SerializeJSONProperty v = Inr (primitiveText v)"
  by (cases v) (simp_all add: wfNumber_finite)

lemma json_members_flat: "flatObject obj \<Longrightarrow> json_members obj = Inr (flatMembers obj)"
  by (induction obj)
     (auto simp: flatObject_def flatMembers_Nil flatMembers_Cons SerializeJSONProperty_flat
           split: option.splits)

lemma JSON_stringify_flat:
  "flatObject obj \<Longrightarrow> JSON_stringify obj = Inr (''{'' @ json_join (flatMembers obj) @ ''}'')"
  by (simp add: JSON_stringify_def json_members_flat)

lemma flatObject_defined: "flatObject obj \<Longrightarrow> flatObject (definedProperties obj)"
  by (simp add: definedProperties_def flatObject_def list_all_iff)

lemma JSON_stringify_defined:
  "flatObject obj \<Longrightarrow> JSON_stringify (definedProperties obj) = JSON_stringify obj"
  by (simp add: JSON_stringify_flat flatObject_defined flatMembers_defined)

lemma JSON_stringify_inj:
  assumes "flatObject xs" "flatObject ys" "JSON_stringify xs = JSON_stringify ys"
  shows "definedProperties xs = definedProperties ys"
proof -
  have "json_join (flatMembers (definedProperties xs)) @ ''}''
      = json_join (flatMembers (definedProperties ys)) @ ''}''"
    using assms by (simp add: JSON_stringify_flat flatMembers_defined)
  moreover have "list_all (\<lambda>p. snd p \<noteq> JUndefined) (definedProperties xs)"
    "list_all (\<lambda>p. snd p \<noteq> JUndefined) (definedProperties ys)"
    by (simp_all add: definedProperties_def list_all_iff)
  moreover from assms(1,2) have "flatObject (definedProperties xs)" "flatObject (definedProperties ys)"
    by (simp_all add: flatObject_defined)
  ultimately show ?thesis by (intro members_inj)
qed

subsection \<open>The two functions\<close>

lemma flatObject_unsignedValue: "flatObject (unsignedValue H now)"
  by (simp add: flatObject_def unsignedValue_def wfNumber_def numberChars_def)

lemma JSON_stringify_unsignedValue:
  "\<exists>message. JSON_stringify (unsignedValue H now) = Inr message"
  by (simp add: JSON_stringify_flat flatObject_unsignedValue)

lemma setProperty_unsignedValue:
  "setProperty ''signature'' v (unsignedValue H now) = unsignedValue H now @ [(''signature'', v)]"
  by (rule setProperty_new_signature) (simp add: unsignedValue_def)

lemma createTransaction_Inr:
  "(createTransaction H privateKey now = Inr transaction) =
   (\<exists>message s. JSON_stringify (unsignedValue H now) = Inr message
      \<and> cryptoSign H privateKey message = Some s
      \<and> transaction = unsignedValue H now @ [(''signature'', JStr s)])"
  using JSON_stringify_unsignedValue [of H now]
  by (auto simp: createTransaction_def Let_def setProperty_unsignedValue split: option.splits)

lemma restWithout_signed:
  "restWithout ''signature'' (unsignedValue H now @ [(''signature'', v)]) = unsignedValue H now"
  by (simp add: restWithout_def unsignedValue_def)

lemma verifiedMessage_setProperty_signature:
  "verifiedMessage (setProperty ''signature'' v transaction) = verifiedMessage transaction"
  by (simp add: verifiedMessage_def restWithout_setProperty_same)

lemma windowExceeded_Some: "windowExceeded c (Some created) = (created + 300000 \<le> c)"
  by (auto simp: windowExceeded_def maximumWindowMs_def)

lemma verifyTransaction_unfold:
  "verifyTransaction H transaction publicKey currentDate =
     (case verifiedMessage transaction of
        Inl e \<Rightarrow> Inl e
      | Inr message \<Rightarrow>
          (case newDate H (getProperty transaction ''created_at'') of
             Inl e \<Rightarrow> Inl e
           | Inr created_at \<Rightarrow>
               if windowExceeded currentDate created_at then Inr False
               else checkSignature H publicKey message (getProperty transaction ''signature'')))"
  by (simp add: verifyTransaction_def verifiedMessage_def getProperty_restWithout Let_def
      cong: sum.case_cong)

lemma verifyTransaction_trace_unfold:
  "verifyTransaction_trace H transaction publicKey currentDate =
     (case verifiedMessage transaction of
        Inl e \<Rightarrow> ([CreateVerify ALGORITHM], Inl e)
      | Inr message \<Rightarrow>
          (case newDate H (getProperty transaction ''created_at'') of
             Inl e \<Rightarrow> ([CreateVerify ALGORITHM, VerifierUpdate message], Inl e)
           | Inr created_at \<Rightarrow>
               if windowExceeded currentDate created_at
               then ([CreateVerify ALGORITHM, VerifierUpdate message], Inr WindowReturn)
               else (case Buffer_from H (getProperty transaction ''signature'') of
                       Inl e \<Rightarrow> ([CreateVerify ALGORITHM, VerifierUpdate message], Inl e)
                     | Inr bytes \<Rightarrow>
                         ([CreateVerify ALGORITHM, VerifierUpdate message,
                           VerifierVerify publicKey bytes],
                          (case cryptoVerify H publicKey message bytes of
                             None \<Rightarrow> Inl CryptoError
                           | Some b \<Rightarrow> Inr (VerifyReturn b))))))"
  by (simp add: verifyTransaction_trace_def verifiedMessage_def getProperty_restWithout Let_def
      cong: sum.case_cong)

lemma verifyTransaction_site_unfold:
  "verifyTransaction_site H transaction publicKey currentDate =
     (case verifiedMessage transaction of
        Inl e \<Rightarrow> Inl e
      | Inr message \<Rightarrow>
          (case newDate H (getProperty transaction ''created_at'') of
             Inl e \<Rightarrow> Inl e
           | Inr created_at \<Rightarrow>
               if windowExceeded currentDate created_at then Inr WindowReturn
               else map_sum id VerifyReturn
                      (checkSignature H publicKey message
                         (getProperty transaction ''signature''))))"
  by (simp add: verifyTransaction_site_def verifyTransaction_trace_unfold checkSignature_def
      split: sum.splits option.splits)

lemma returned_VerifyReturn: "map_sum id returned (map_sum id VerifyReturn r) = r"
  by (cases r) simp_all

lemma verifyTransaction_returned:
  "verifyTransaction H transaction publicKey currentDate =
     map_sum id returned (verifyTransaction_site H transaction publicKey currentDate)"
  by (simp add: verifyTransaction_unfold verifyTransaction_site_unfold returned_VerifyReturn
      split: sum.splits)

subsection \<open>The reference platform\<close>

lemma of_char_base64Char:
  "n < 64 \<Longrightarrow> (of_char (base64Char n) :: nat) =
     (if n < 26 then 65 + n else if n < 52 then 71 + n else if n < 62 then n - 4
      else if n = 62 then 43 else 47)"
  by (simp add: base64Char_def)

lemma base64Value_Char: "n < 64 \<Longrightarrow> base64Value (base64Char n) = Some n"
  by (simp add: base64Value_def Let_def of_char_base64Char) arith

lemma base64Char_not_pad: "n < 64 \<Longrightarrow> base64Char n \<noteq> CHR ''=''"
proof
  assume n: "n < 64" and "base64Char n = CHR ''=''"
  then have "base64Value (base64Char n) = base64Value (CHR ''='')" by simp
  with n show False by (simp add: base64Value_Char) (simp add: base64Value_def)
qed

lemma base64_sextets:
  "n < 64 \<Longrightarrow> List.map_filter base64Value (takeWhile (\<lambda>c. c \<noteq> CHR ''='') (base64Char n # s))
     = n # List.map_filter base64Value (takeWhile (\<lambda>c. c \<noteq> CHR ''='') s)"
  "List.map_filter base64Value (takeWhile (\<lambda>c. c \<noteq> CHR ''='') (CHR ''='' # s)) = []"
  by (simp_all add: base64Char_not_pad base64Value_Char List.map_filter_simps)

lemma base64_bounds:
  fixes a b c :: nat
  shows "a < 256 \<Longrightarrow> a div 4 < 64"
    and "b < 256 \<Longrightarrow> a mod 4 * 16 + b div 16 < 64"
    and "c < 256 \<Longrightarrow> b mod 16 * 4 + c div 64 < 64"
    and "c mod 64 < 64" and "a mod 4 * 16 < 64" and "b mod 16 * 4 < 64"
proof -
  have m: "a mod 4 < 4" "b mod 16 < 16" by simp_all
  show "a < 256 \<Longrightarrow> a div 4 < 64" by simp
  show "a mod 4 * 16 + b div 16 < 64" if "b < 256"
  proof -
    from that have "b div 16 < 16" by simp
    with m(1) show ?thesis by simp
  qed
  show "b mod 16 * 4 + c div 64 < 64" if "c < 256"
  proof -
    from that have "c div 64 < 4" by simp
    with m(2) show ?thesis by simp
  qed
  show "c mod 64 < 64" by simp
  from m(1) show "a mod 4 * 16 < 64" by simp
  from m(2) show "b mod 16 * 4 < 64" by simp
qed

lemma base64_join:
  fixes a b c :: nat
  shows "b < 256 \<Longrightarrow> a div 4 * 4 + (a mod 4 * 16 + b div 16) div 16 = a"
    and "b < 256 \<Longrightarrow> c < 256 \<Longrightarrow>
           (a mod 4 * 16 + b div 16) mod 16 * 16 + (b mod 16 * 4 + c div 64) div 4 = b"
    and "c < 256 \<Longrightarrow> (b mod 16 * 4 + c div 64) mod 4 * 64 + c mod 64 = c"
    and "a div 4 * 4 + a mod 4 * 16 div 16 = a"
    and "b < 256 \<Longrightarrow> (a mod 4 * 16 + b div 16) mod 16 * 16 + b mod 16 * 4 div 4 = b"
proof -
  have 1: "(a mod 4 * 16 + b div 16) div 16 = a mod 4"
    and 2: "(a mod 4 * 16 + b div 16) mod 16 = b div 16" if "b < 256"
  proof -
    from that have "b div 16 < 16" by simp
    then show "(a mod 4 * 16 + b div 16) div 16 = a mod 4"
      "(a mod 4 * 16 + b div 16) mod 16 = b div 16" by simp_all
  qed
  have 3: "(b mod 16 * 4 + c div 64) div 4 = b mod 16"
    and 4: "(b mod 16 * 4 + c div 64) mod 4 = c div 64" if "c < 256"
  proof -
    from that have "c div 64 < 4" by simp
    then show "(b mod 16 * 4 + c div 64) div 4 = b mod 16"
      "(b mod 16 * 4 + c div 64) mod 4 = c div 64" by simp_all
  qed
  show "b < 256 \<Longrightarrow> a div 4 * 4 + (a mod 4 * 16 + b div 16) div 16 = a"
    by (simp only: 1 div_mult_mod_eq)
  show "b < 256 \<Longrightarrow> c < 256 \<Longrightarrow>
           (a mod 4 * 16 + b div 16) mod 16 * 16 + (b mod 16 * 4 + c div 64) div 4 = b"
    by (simp only: 2 3 div_mult_mod_eq)
  show "c < 256 \<Longrightarrow> (b mod 16 * 4 + c div 64) mod 4 * 64 + c mod 64 = c"
    by (simp only: 4 div_mult_mod_eq)
  show "a div 4 * 4 + a mod 4 * 16 div 16 = a"
    by simp
  show "b < 256 \<Longrightarrow> (a mod 4 * 16 + b div 16) mod 16 * 16 + b mod 16 * 4 div 4 = b"
    by (simp only: 2) simp
qed

lemma base64_round_trip:
  "list_all (\<lambda>b. b < 256) bytes \<Longrightarrow> base64Bytes (base64Encode bytes) = bytes"
proof (induction bytes rule: base64Encode.induct)
  case 1
  then show ?case by (simp add: base64Bytes_def List.map_filter_simps)
next
  case (2 a)
  then have "a < 256" by simp
  then show ?case
    by (simp only: base64Encode.simps base64Bytes_def base64_sextets base64_bounds
          base64_join sextetBytes.simps)
next
  case (3 a b)
  then have "a < 256" "b < 256" by simp_all
  then show ?case
    by (simp only: base64Encode.simps base64Bytes_def base64_sextets base64_bounds
          base64_join sextetBytes.simps)
next
  case (4 a b c bytes)
  then have l: "a < 256" "b < 256" "c < 256"
    and "sextetBytes (List.map_filter base64Value
           (takeWhile (\<lambda>c. c \<noteq> CHR ''='') (base64Encode bytes))) = bytes"
    by (simp_all add: base64Bytes_def)
  then show ?case
    by (simp only: base64Encode.simps base64Bytes_def base64_sextets base64_bounds
          base64_join sextetBytes.simps append.simps)
qed

lemma demoSignatureBytes_bytes: "list_all (\<lambda>b. b < 256) (demoSignatureBytes m)"
  by (simp add: demoSignatureBytes_def list_all_iff)

lemma demoSignatureBytes_inj: "demoSignatureBytes m = demoSignatureBytes m' \<Longrightarrow> m = m'"
proof -
  assume "demoSignatureBytes m = demoSignatureBytes m'"
  then have "map (of_char :: char \<Rightarrow> nat) m = map of_char m'"
    by (simp add: demoSignatureBytes_def)
  moreover have "inj (of_char :: char \<Rightarrow> nat)"
    by (rule injI) simp
  ultimately show "m = m'" by (simp add: inj_map_eq_map)
qed

lemma demoHost_fields:
  "cryptoSign demoHost = demoSign" "cryptoVerify demoHost = demoVerify"
  "base64Decode demoHost = base64Bytes" "bufferFromObject demoHost = demoBufferFromObject"
  "toISOString demoHost = isoString" "newDate demoHost = demoNewDate"
  by (simp_all add: demoHost_def)

lemma demo_matchingKeys: "matchingKeys demoHost demoPrivateKey demoPublicKey"
  by (simp add: matchingKeys_def demoHost_fields demoSign_def demoVerify_def
      base64_round_trip demoSignatureBytes_bytes)

subsection \<open>The example\<close>

lemma demo_isoString: "isoString demoClock = ''2024-11-18T07:13:42.582Z''"
  by code_simp

lemma demo_isoTime: "isoTime ''2024-11-18T07:13:42.582Z'' = Some demoClock"
  by code_simp

lemma demo_isoTime_backdated: "isoTime ''2024-11-18T07:03:42.582Z'' = Some (demoClock - 600000)"
  by code_simp

lemma demo_unsignedValue: "unsignedValue demoHost demoClock = demoUnsigned"
  by (simp add: unsignedValue_def demoHost_fields demo_isoString demoUnsigned_def)

lemma flatObject_demo: "flatObject demoUnsigned" "flatObject demoReordered"
  by (simp_all add: flatObject_def demoUnsigned_def demoReordered_def wfNumber_def
      numberChars_def)

lemma demo_JSON_stringify: "JSON_stringify demoUnsigned = Inr demoMessage"
  by (simp add: JSON_stringify_def demoUnsigned_def demoMessage_def finiteNumber_def)

lemma demo_createTransaction:
  "createTransaction demoHost demoPrivateKey demoClock = Inr demoTransaction"
  by (simp add: createTransaction_Inr demo_unsignedValue demo_JSON_stringify demoHost_fields
      demoSign_def demoSignature_def demoTransaction_def)

lemma demo_signature: "getProperty demoTransaction ''signature'' = JStr demoSignature"
  by (simp add: demoTransaction_def demoUnsigned_def getProperty_def)

lemma demo_signature_bytes:
  "Buffer_from demoHost (JStr demoSignature) = Inr (demoSignatureBytes demoMessage)"
  by (simp add: Buffer_from_def demoHost_fields demoSignature_def base64_round_trip
      demoSignatureBytes_bytes)

lemma demo_created_at:
  "newDate demoHost (getProperty demoTransaction ''created_at'') = Inr (Some demoClock)"
  by (simp add: demoTransaction_def demoUnsigned_def getProperty_def demoHost_fields
      demoNewDate_def demo_isoTime)

lemma demo_verifiedMessage: "verifiedMessage demoTransaction = Inr demoMessage"
  by (simp add: verifiedMessage_def demoTransaction_def restWithout_append_signature
      demoUnsigned_def [THEN arg_cong, of "map fst"] demo_JSON_stringify)

lemma demo_cryptoVerify:
  "cryptoVerify demoHost demoPublicKey demoMessage (demoSignatureBytes demoMessage) = Some True"
  by (simp add: demoHost_fields demoVerify_def)

lemma demo_rejectsOtherMessages:
  "rejectsOtherMessages demoHost demoPublicKey demoMessage (demoSignatureBytes demoMessage)"
  by (auto simp: rejectsOtherMessages_def demoHost_fields demoVerify_def
      dest: demoSignatureBytes_inj)

lemma demo_window:
  "windowExceeded c (Some demoClock) = (demoClock + 300000 \<le> c)"
  by (rule windowExceeded_Some)

lemma demo_checkSignature:
  "checkSignature demoHost demoPublicKey message (JStr demoSignature)
     = Inr (message = demoMessage)"
  by (auto simp: checkSignature_def demo_signature_bytes demoHost_fields(2) demoVerify_def
      dest: demoSignatureBytes_inj)

lemma demo_verify_fresh:
  "verifyTransaction demoHost demoTransaction demoPublicKey (demoClock + 1000) = Inr True"
  by (simp add: verifyTransaction_unfold demo_verifiedMessage demo_created_at demo_window
      demo_signature demo_checkSignature)

lemma demo_verify_stale:
  "verifyTransaction demoHost demoTransaction demoPublicKey (demoClock + 300000) = Inr False"
  by (simp add: verifyTransaction_unfold demo_verifiedMessage demo_created_at demo_window)

lemma demo_Buffer_from:
  "Buffer_from demoHost (getProperty demoTransaction ''signature'')
     = Inr (demoSignatureBytes demoMessage)"
  by (simp add: demo_signature demo_signature_bytes)

lemma verifiedMessage_restWithout_signature:
  "verifiedMessage (restWithout ''signature'' transaction) = verifiedMessage transaction"
  by (simp add: verifiedMessage_def restWithout_def)

lemma demo_verify_other_signature:
  "verifyTransaction demoHost (setProperty ''signature'' v demoTransaction) key (demoClock + 1000)
     = checkSignature demoHost key demoMessage v"
  by (simp add: verifyTransaction_unfold verifiedMessage_setProperty_signature
      demo_verifiedMessage getProperty_setProperty demo_created_at demo_window)

subsection \<open>Insertion order\<close>

lemma foldl_setProperty_plain:
  assumes "distinct (map fst obj @ map fst entries)"
    and "\<forall>k \<in> set (map fst entries). arrayIndex k = None"
  shows "foldl (\<lambda>obj p. setProperty (fst p) (snd p) obj) obj entries = obj @ entries"
  using assms
proof (induction entries arbitrary: obj)
  case Nil
  then show ?case by simp
next
  case (Cons p entries)
  from Cons.prems have s: "setProperty (fst p) (snd p) obj = obj @ [p]"
    by (auto simp: setProperty_def)
  from Cons.prems have "distinct (map fst (obj @ [p]) @ map fst entries)"
    "\<forall>k \<in> set (map fst entries). arrayIndex k = None"
    by auto
  from Cons.IH [OF this] s show ?case by simp
qed

lemma objectOf_plain:
  "distinct (map fst entries) \<Longrightarrow> \<forall>k \<in> set (map fst entries). arrayIndex k = None
     \<Longrightarrow> objectOf entries = entries"
  using foldl_setProperty_plain [of "[]" entries] by (simp add: objectOf_def)

lemma arrayIndex_fields:
  "arrayIndex ''currency'' = None" "arrayIndex ''amount'' = None"
  "arrayIndex ''remark'' = None" "arrayIndex ''created_at'' = None"
  by (simp_all add: arrayIndex_def)

lemma getProperty_distinct:
  "distinct (map fst obj) \<Longrightarrow> (k, v) \<in> set obj \<Longrightarrow> getProperty obj k = v"
  by (simp add: getProperty_def)

subsection \<open>One value replaced\<close>

lemma json_members_append:
  "json_members (xs @ ys) =
     (case json_members xs of
        Inl e \<Rightarrow> Inl e
      | Inr ms \<Rightarrow> (case json_members ys of Inl e \<Rightarrow> Inl e | Inr ns \<Rightarrow> Inr (ms @ ns)))"
  by (induction xs) (auto split: sum.splits option.splits)

lemma json_join_split:
  "json_join (ms @ m # ns)
     = concat (map (\<lambda>x. x @ '','') ms) @ m @ concat (map (\<lambda>x. '','' @ x) ns)"
proof (induction ms)
  case Nil
  show ?case by (induction ns arbitrary: m) (simp_all)
next
  case (Cons x ms)
  have "json_join (x # ms @ m # ns) = x @ '','' @ json_join (ms @ m # ns)"
    by (cases "ms @ m # ns") simp_all
  with Cons show ?case by simp
qed

lemma json_join_cancel:
  "json_join (ms @ m # ns) = json_join (ms @ m' # ns) \<Longrightarrow> m = m'"
  by (simp add: json_join_split)

subsection \<open>One field altered\<close>

lemma nonflat_serialized:
  assumes "\<not> flatValue v" "wfValue v"
  shows "(\<exists>e. SerializeJSONProperty v = Inl e)
       \<or> (\<exists>a. SerializeJSONProperty v = Inr (Some a)
              \<and> (a = ''null'' \<or> (\<exists>t. a = CHR ''['' # t) \<or> (\<exists>t. a = CHR ''{'' # t)))"
  using assms by (cases v) (auto split: sum.splits)

lemma original_text:
  assumes "v0 = JStr s0 \<or> (v0 = JNum n0 \<and> wfNumber n0)"
  shows "\<exists>a0. SerializeJSONProperty v0 = Inr (Some a0) \<and> a0 \<noteq> ''null''
           \<and> (\<forall>t. a0 \<noteq> CHR ''['' # t) \<and> (\<forall>t. a0 \<noteq> CHR ''{'' # t)"
  using assms
  by (auto simp: Quote_def dquote_def wfNumber_finite wfNumber_def numberChars_def)

lemma json_members_single:
  "json_members (xs @ (k, v) # ys) =
     (case json_members xs of
        Inl e \<Rightarrow> Inl e
      | Inr ms \<Rightarrow>
          (case SerializeJSONProperty v of
             Inl e \<Rightarrow> Inl e
           | Inr s \<Rightarrow>
               (case json_members ys of
                  Inl e \<Rightarrow> Inl e
                | Inr ns \<Rightarrow>
                    Inr (ms @ (case s of None \<Rightarrow> ns | Some t \<Rightarrow> (Quote k @ '':'' @ t) # ns)))))"
  by (simp add: json_members_append split: sum.splits option.splits)

lemma replaced_nonflat_differs:
  assumes "flatObject xs" "flatObject ys" "\<not> flatValue v" "wfValue v"
    and "v0 = JStr s0 \<or> (v0 = JNum n0 \<and> wfNumber n0)"
  shows "JSON_stringify (xs @ (k, v) # ys) \<noteq> JSON_stringify (xs @ (k, v0) # ys)"
proof -
  from original_text [OF assms(5)] obtain a0
    where a0: "SerializeJSONProperty v0 = Inr (Some a0)" "a0 \<noteq> ''null''"
      "\<forall>t. a0 \<noteq> CHR ''['' # t" "\<forall>t. a0 \<noteq> CHR ''{'' # t"
    by blast
  have r: "JSON_stringify (xs @ (k, v0) # ys)
      = Inr (''{'' @ json_join (flatMembers xs @ (Quote k @ '':'' @ a0) # flatMembers ys) @ ''}'')"
    by (simp add: JSON_stringify_def json_members_single json_members_flat assms(1,2) a0(1))
  from nonflat_serialized [OF assms(3,4)] show ?thesis
  proof
    assume "\<exists>e. SerializeJSONProperty v = Inl e"
    then show ?thesis
      by (auto simp: r) (simp add: JSON_stringify_def json_members_single json_members_flat assms(1))
  next
    assume "\<exists>a. SerializeJSONProperty v = Inr (Some a)
              \<and> (a = ''null'' \<or> (\<exists>t. a = CHR ''['' # t) \<or> (\<exists>t. a = CHR ''{'' # t))"
    then obtain a where a: "SerializeJSONProperty v = Inr (Some a)"
      and h: "a = ''null'' \<or> (\<exists>t. a = CHR ''['' # t) \<or> (\<exists>t. a = CHR ''{'' # t)"
      by blast
    have l: "JSON_stringify (xs @ (k, v) # ys)
      = Inr (''{'' @ json_join (flatMembers xs @ (Quote k @ '':'' @ a) # flatMembers ys) @ ''}'')"
      by (simp add: JSON_stringify_def json_members_single json_members_flat assms(1,2) a)
    show ?thesis
    proof
      assume "JSON_stringify (xs @ (k, v) # ys) = JSON_stringify (xs @ (k, v0) # ys)"
      with l r have "json_join (flatMembers xs @ (Quote k @ '':'' @ a) # flatMembers ys)
        = json_join (flatMembers xs @ (Quote k @ '':'' @ a0) # flatMembers ys)"
        by simp
      from json_join_cancel [OF this] have "a = a0" by simp
      with h a0 show False by auto
    qed
  qed
qed

lemma tampered_value_differs:
  assumes "field \<in> {''amount'', ''currency'', ''remark'', ''created_at''}"
    and "v \<noteq> getProperty (unsignedValue H now) field"
  shows "definedProperties (setProperty field v (unsignedValue H now))
           \<noteq> definedProperties (unsignedValue H now)"
proof -
  from assms(1) consider "field = ''amount''" | "field = ''currency''"
    | "field = ''remark''" | "field = ''created_at''"
    by blast
  then show ?thesis
  proof cases
    case 1
    with assms(2) have "v \<noteq> JNum ''10.2''"
      by (simp add: unsignedValue_def getProperty_def)
    with 1 show ?thesis
      by (cases "v = JUndefined")
         (simp_all add: unsignedValue_def definedProperties_def setProperty_def)
  next
    case 2
    with assms(2) have "v \<noteq> JStr ''USD''"
      by (simp add: unsignedValue_def getProperty_def)
    with 2 show ?thesis
      by (cases "v = JUndefined")
         (simp_all add: unsignedValue_def definedProperties_def setProperty_def)
  next
    case 3
    with assms(2) have "v \<noteq> JStr ''Payment for service''"
      by (simp add: unsignedValue_def getProperty_def)
    with 3 show ?thesis
      by (cases "v = JUndefined")
         (simp_all add: unsignedValue_def definedProperties_def setProperty_def)
  next
    case 4
    with assms(2) have "v \<noteq> JStr (toISOString H now)"
      by (simp add: unsignedValue_def getProperty_def)
    with 4 show ?thesis
      by (cases "v = JUndefined")
         (simp_all add: unsignedValue_def definedProperties_def setProperty_def)
  qed
qed

lemma tampered_nonflat_differs:
  assumes "field \<in> {''amount'', ''currency'', ''remark'', ''created_at''}"
    and "\<not> flatValue v" and "wfValue v"
  shows "JSON_stringify (setProperty field v (unsignedValue H now))
           \<noteq> JSON_stringify (unsignedValue H now)"
proof -
  have f: "flatObject []" "flatObject [(''currency'', JStr ''USD'')]"
    "flatObject [(''currency'', JStr ''USD''), (''amount'', JNum ''10.2'')]"
    "flatObject [(''currency'', JStr ''USD''), (''amount'', JNum ''10.2''),
                 (''remark'', JStr ''Payment for service'')]"
    "flatObject [(''amount'', JNum ''10.2''), (''remark'', JStr ''Payment for service''),
                 (''created_at'', JStr (toISOString H now))]"
    "flatObject [(''remark'', JStr ''Payment for service''),
                 (''created_at'', JStr (toISOString H now))]"
    "flatObject [(''created_at'', JStr (toISOString H now))]"
    by (simp_all add: flatObject_def wfNumber_def numberChars_def)
  have n: "wfNumber ''10.2''" by (simp add: wfNumber_def numberChars_def)
  from assms(1) consider "field = ''amount''" | "field = ''currency''"
    | "field = ''remark''" | "field = ''created_at''"
    by blast
  then show ?thesis
  proof cases
    case 1
    from replaced_nonflat_differs [OF f(2) f(6) assms(2,3), of "JNum ''10.2''" _ "''10.2''"
        "''amount''"] n 1
    show ?thesis by (simp add: unsignedValue_def setProperty_def)
  next
    case 2
    from replaced_nonflat_differs [OF f(1) f(5) assms(2,3), of "JStr ''USD''" "''USD''" _
        "''currency''"] 2
    show ?thesis by (simp add: unsignedValue_def setProperty_def)
  next
    case 3
    from replaced_nonflat_differs [OF f(3) f(7) assms(2,3), of "JStr ''Payment for service''"
        "''Payment for service''" _ "''remark''"] 3
    show ?thesis by (simp add: unsignedValue_def setProperty_def)
  next
    case 4
    from replaced_nonflat_differs [OF f(4) f(1) assms(2,3), of "JStr (toISOString H now)"
        "toISOString H now" _ "''created_at''"] 4
    show ?thesis by (simp add: unsignedValue_def setProperty_def)
  qed
qed

lemma wfValue_flat: "flatValue v \<Longrightarrow> wfValue v"
  by (cases v) simp_all

lemma tampered_message_differs:
  assumes "field \<in> {''amount'', ''currency'', ''remark'', ''created_at''}"
    and "v \<noteq> getProperty (unsignedValue H now) field" and "wfValue v"
  shows "JSON_stringify (setProperty field v (unsignedValue H now))
           \<noteq> JSON_stringify (unsignedValue H now)"
proof (cases "flatValue v")
  case True
  show ?thesis
  proof
    assume "JSON_stringify (setProperty field v (unsignedValue H now))
           = JSON_stringify (unsignedValue H now)"
    with flatObject_setProperty [OF flatObject_unsignedValue True] flatObject_unsignedValue
    have "definedProperties (setProperty field v (unsignedValue H now))
           = definedProperties (unsignedValue H now)"
      by (rule JSON_stringify_inj)
    with tampered_value_differs [OF assms(1,2)] show False by simp
  qed
next
  case False
  from tampered_nonflat_differs [OF assms(1) False assms(3)] show ?thesis .
qed

subsection \<open>The fields in another order\<close>

lemma signed_fields:
  assumes "createTransaction H privateKey now = Inr signed"
  obtains message s where "JSON_stringify (unsignedValue H now) = Inr message"
    and "cryptoSign H privateKey message = Some s"
    and "signed = unsignedValue H now @ [(''signature'', JStr s)]"
  using assms by (auto simp: createTransaction_Inr)

lemma keys_unsignedValue:
  "map fst (unsignedValue H now) = [''currency'', ''amount'', ''remark'', ''created_at'']"
  by (simp add: unsignedValue_def)

lemma getProperty_same_set:
  assumes "set xs = set ys" "distinct (map fst xs)" "distinct (map fst ys)"
  shows "getProperty xs k = getProperty ys k"
proof -
  from assms have "map_of xs = map_of ys" by (simp add: map_of_inject_set)
  then show ?thesis by (simp add: getProperty_def)
qed

lemma getProperty_append_other:
  "k \<noteq> k' \<Longrightarrow> getProperty (obj @ [(k', v)]) k = getProperty obj k"
  by (simp add: getProperty_def map_of_append map_add_def split: option.splits)

lemma getProperty_append_same:
  "k \<notin> set (map fst obj) \<Longrightarrow> getProperty (obj @ [(k, v)]) k = v"
  by (simp add: getProperty_append)

lemma reordered_fields:
  assumes "set entries = set (unsignedValue H now)" and "distinct (map fst entries)"
  shows "objectOf entries = entries" and "flatObject entries"
    and "definedProperties entries = entries"
    and "''signature'' \<notin> set (map fst entries)"
    and "getProperty entries k = getProperty (unsignedValue H now) k"
proof -
  have k: "set (map fst entries) = {''currency'', ''amount'', ''remark'', ''created_at''}"
    using arg_cong [OF assms(1), of "\<lambda>s. fst ` s"] by (simp add: unsignedValue_def)
  then have "\<forall>k \<in> set (map fst entries). arrayIndex k = None"
    by (simp add: arrayIndex_fields)
  with assms(2) show "objectOf entries = entries" by (rule objectOf_plain)
  show "flatObject entries"
    using flatObject_unsignedValue [of H now] by (simp add: flatObject_def list_all_iff assms(1))
  have "\<forall>p \<in> set entries. snd p \<noteq> JUndefined"
    by (auto simp: assms(1) unsignedValue_def)
  then show "definedProperties entries = entries"
    by (simp add: definedProperties_def)
  show "''signature'' \<notin> set (map fst entries)" unfolding k by simp
  show "getProperty entries k = getProperty (unsignedValue H now) k"
    using assms by (rule getProperty_same_set) (simp add: keys_unsignedValue)
qed

section \<open>The claims\<close>

subsection \<open>Round trip (C1)\<close>

text \<open>
  C1.  For a matching key pair, on a platform whose \<open>Date\<close> reads back the string
  \<open>toISOString\<close> wrote, \<open>createTransaction\<close> returns a signed transaction, and
  \<open>verifyTransaction\<close> returns \<open>true\<close> for it at every clock reading less than
  \<open>maximumWindowMs\<close> after the signing time (earlier readings included).
\<close>

theorem createTransaction_verifyTransaction_round_trip:
  assumes "matchingKeys H privateKey publicKey"
    and "newDate H (JStr (toISOString H created)) = Inr (Some created)"
    and "currentDate - created < maximumWindowMs"
  shows "\<exists>transaction. createTransaction H privateKey created = Inr transaction
            \<and> verifyTransaction H transaction publicKey currentDate = Inr True"
proof -
  let ?unsigned = "unsignedValue H created"
  obtain message where m: "JSON_stringify ?unsigned = Inr message"
    using JSON_stringify_unsignedValue by blast
  from assms(1) obtain s where s: "cryptoSign H privateKey message = Some s"
    and v: "cryptoVerify H publicKey message (base64Decode H s) = Some True"
    unfolding matchingKeys_def by blast
  let ?t = "?unsigned @ [(''signature'', JStr s)]"
  from m s have c: "createTransaction H privateKey created = Inr ?t"
    by (simp add: createTransaction_Inr)
  have vm: "verifiedMessage ?t = Inr message"
    by (simp add: verifiedMessage_def restWithout_signed m)
  have g: "getProperty ?t ''signature'' = JStr s"
    "getProperty ?t ''created_at'' = JStr (toISOString H created)"
    by (simp_all add: getProperty_def unsignedValue_def)
  from assms(3) have w: "\<not> windowExceeded currentDate (Some created)"
    by (simp add: windowExceeded_def)
  have "verifyTransaction H ?t publicKey currentDate = Inr True"
    by (simp add: verifyTransaction_unfold vm g assms(2) w checkSignature_def Buffer_from_def v)
  with c show ?thesis by blast
qed

theorem createTransaction_verifyTransaction_round_trip_witness:
  "matchingKeys demoHost demoPrivateKey demoPublicKey
   \<and> newDate demoHost (JStr (toISOString demoHost demoClock)) = Inr (Some demoClock)
   \<and> (demoClock + 1000) - demoClock < maximumWindowMs
   \<and> (\<exists>transaction. createTransaction demoHost demoPrivateKey demoClock = Inr transaction
          \<and> verifyTransaction demoHost transaction demoPublicKey (demoClock + 1000) = Inr True)"
proof -
  have d: "newDate demoHost (JStr (toISOString demoHost demoClock)) = Inr (Some demoClock)"
    by (simp add: demoHost_fields demoNewDate_def demo_isoString demo_isoTime)
  have w: "(demoClock + 1000) - demoClock < maximumWindowMs"
    by (simp add: maximumWindowMs_def)
  from createTransaction_verifyTransaction_round_trip [OF demo_matchingKeys d w]
    demo_matchingKeys d w
  show ?thesis by blast
qed

subsection \<open>The signature is not part of what is signed or verified (C2)\<close>

text \<open>
  C2.  The signer serializes the object of the four fields \<open>currency\<close>, \<open>amount\<close>,
  \<open>remark\<close>, \<open>created_at\<close> before it attaches the signature, and signs that string.
  For the transaction it returns, and for that transaction with any other value of the
  \<open>signature\<close> property, \<open>verifyTransaction\<close> removes the \<open>signature\<close> key before it
  serializes: the string it feeds the verifier is the string that was signed, and its
  result is that of the time check followed by the check of the signature against that
  string.
\<close>

theorem signature_excluded_from_signed_and_verified_message:
  assumes "createTransaction H privateKey now = Inr transaction"
  shows "\<exists>message signature.
           JSON_stringify (unsignedValue H now) = Inr message
         \<and> map fst (unsignedValue H now) = [''currency'', ''amount'', ''remark'', ''created_at'']
         \<and> cryptoSign H privateKey message = Some signature
         \<and> getProperty transaction ''signature'' = JStr signature
         \<and> (\<forall>publicKey currentDate.
               verifyTransaction H transaction publicKey currentDate
                 = (case newDate H (JStr (toISOString H now)) of
                      Inl e \<Rightarrow> Inl e
                    | Inr created_at \<Rightarrow>
                        if windowExceeded currentDate created_at then Inr False
                        else checkSignature H publicKey message (JStr signature))
             \<and> take 2 (fst (verifyTransaction_trace H transaction publicKey currentDate))
                 = [CreateVerify ALGORITHM, VerifierUpdate message])
         \<and> (\<forall>v publicKey currentDate.
               verifyTransaction H (setProperty ''signature'' v transaction) publicKey currentDate
                 = (case newDate H (JStr (toISOString H now)) of
                      Inl e \<Rightarrow> Inl e
                    | Inr created_at \<Rightarrow>
                        if windowExceeded currentDate created_at then Inr False
                        else checkSignature H publicKey message v)
             \<and> take 2 (fst (verifyTransaction_trace H (setProperty ''signature'' v transaction)
                              publicKey currentDate))
                 = [CreateVerify ALGORITHM, VerifierUpdate message])"
proof -
  from assms obtain message s
    where m: "JSON_stringify (unsignedValue H now) = Inr message"
      and s: "cryptoSign H privateKey message = Some s"
      and t: "transaction = unsignedValue H now @ [(''signature'', JStr s)]"
    by (auto simp: createTransaction_Inr)
  have k: "map fst (unsignedValue H now) = [''currency'', ''amount'', ''remark'', ''created_at'']"
    by (simp add: unsignedValue_def)
  have g: "getProperty transaction ''signature'' = JStr s"
    "getProperty transaction ''created_at'' = JStr (toISOString H now)"
    by (simp_all add: t getProperty_def unsignedValue_def)
  have vm: "verifiedMessage transaction = Inr message"
    by (simp add: t verifiedMessage_def restWithout_signed m)
  have own: "verifyTransaction H transaction publicKey currentDate
          = (case newDate H (JStr (toISOString H now)) of
               Inl e \<Rightarrow> Inl e
             | Inr created_at \<Rightarrow>
                 if windowExceeded currentDate created_at then Inr False
                 else checkSignature H publicKey message (JStr s))"
    "take 2 (fst (verifyTransaction_trace H transaction publicKey currentDate))
          = [CreateVerify ALGORITHM, VerifierUpdate message]"
    for publicKey currentDate
    by (simp_all add: verifyTransaction_unfold verifyTransaction_trace_unfold vm g
        split: sum.splits)
  have other: "verifyTransaction H (setProperty ''signature'' v transaction) publicKey currentDate
          = (case newDate H (JStr (toISOString H now)) of
               Inl e \<Rightarrow> Inl e
             | Inr created_at \<Rightarrow>
                 if windowExceeded currentDate created_at then Inr False
                 else checkSignature H publicKey message v)"
    "take 2 (fst (verifyTransaction_trace H (setProperty ''signature'' v transaction)
                     publicKey currentDate))
          = [CreateVerify ALGORITHM, VerifierUpdate message]"
    for v publicKey currentDate
    by (simp_all add: verifyTransaction_unfold verifyTransaction_trace_unfold
        verifiedMessage_setProperty_signature vm getProperty_setProperty g
        split: sum.splits)
  show ?thesis
    by (rule exI [of _ message], rule exI [of _ s]) (simp add: m k s g(1) own other)
qed

theorem signature_excluded_from_signed_and_verified_message_witness:
  "createTransaction demoHost demoPrivateKey demoClock = Inr demoTransaction
   \<and> JSON_stringify (unsignedValue demoHost demoClock) = Inr demoMessage
   \<and> take 2 (fst (verifyTransaction_trace demoHost demoTransaction demoPublicKey
                     (demoClock + 1000)))
       = [CreateVerify ALGORITHM, VerifierUpdate demoMessage]
   \<and> take 2 (fst (verifyTransaction_trace demoHost
                     (setProperty ''signature'' JNull demoTransaction) demoPublicKey
                     (demoClock + 1000)))
       = [CreateVerify ALGORITHM, VerifierUpdate demoMessage]"
  using signature_excluded_from_signed_and_verified_message [OF demo_createTransaction]
    demo_createTransaction
  by (auto simp: demo_unsignedValue demo_JSON_stringify)

subsection \<open>The time window (C3)\<close>

text \<open>
  C3.  For a transaction whose signature verifies: when \<open>currentDate - created_at\<close> is
  less than \<open>maximumWindowMs\<close> the result is \<open>true\<close>; when it is equal or greater the
  result is \<open>false\<close>, returned by the time check.  The boundary itself is rejected.
\<close>

theorem window_boundary_is_inclusive:
  assumes "verifiedMessage transaction = Inr message"
    and "Buffer_from H (getProperty transaction ''signature'') = Inr bytes"
    and "cryptoVerify H publicKey message bytes = Some True"
    and "newDate H (getProperty transaction ''created_at'') = Inr (Some created)"
  shows "(currentDate - created < maximumWindowMs \<longrightarrow>
            verifyTransaction H transaction publicKey currentDate = Inr True)
       \<and> (currentDate - created \<ge> maximumWindowMs \<longrightarrow>
            verifyTransaction H transaction publicKey currentDate = Inr False
          \<and> verifyTransaction_site H transaction publicKey currentDate = Inr WindowReturn)
       \<and> verifyTransaction H transaction publicKey (created + maximumWindowMs) = Inr False"
  using assms
  by (simp add: verifyTransaction_unfold verifyTransaction_site_unfold windowExceeded_def
      checkSignature_def)

theorem window_boundary_is_inclusive_witness:
  "verifiedMessage demoTransaction = Inr demoMessage
   \<and> Buffer_from demoHost (getProperty demoTransaction ''signature'')
       = Inr (demoSignatureBytes demoMessage)
   \<and> cryptoVerify demoHost demoPublicKey demoMessage (demoSignatureBytes demoMessage) = Some True
   \<and> newDate demoHost (getProperty demoTransaction ''created_at'') = Inr (Some demoClock)
   \<and> verifyTransaction demoHost demoTransaction demoPublicKey (demoClock + 299999) = Inr True
   \<and> verifyTransaction demoHost demoTransaction demoPublicKey (demoClock + 300000) = Inr False
   \<and> verifyTransaction demoHost demoTransaction demoPublicKey (demoClock + 360000) = Inr False"
  using window_boundary_is_inclusive [OF demo_verifiedMessage demo_Buffer_from
      demo_cryptoVerify demo_created_at, of "demoClock + 299999"]
    window_boundary_is_inclusive [OF demo_verifiedMessage demo_Buffer_from
      demo_cryptoVerify demo_created_at, of "demoClock + 300000"]
    window_boundary_is_inclusive [OF demo_verifiedMessage demo_Buffer_from
      demo_cryptoVerify demo_created_at, of "demoClock + 360000"]
    demo_verifiedMessage demo_Buffer_from demo_cryptoVerify demo_created_at
  by (simp add: maximumWindowMs_def)

subsection \<open>What verifyTransaction returns and throws (C4)\<close>

text \<open>
  C4, as the specification states it, fails: the result is a bare boolean, and a missing
  signature is not reported but thrown.  On the example transaction inside the window:
  without its \<open>signature\<close>, or with \<open>null\<close> for it, the call throws a \<open>TypeError\<close>; with
  a public key the library cannot read it throws the library's error; and an expired
  transaction and a forged signature both give the same \<open>false\<close>.
\<close>

theorem verifyTransaction_throws_on_missing_signature:
  "verifyTransaction demoHost (restWithout ''signature'' demoTransaction) demoPublicKey
     (demoClock + 1000) = Inl TypeError
   \<and> verifyTransaction demoHost (setProperty ''signature'' JNull demoTransaction) demoPublicKey
     (demoClock + 1000) = Inl TypeError
   \<and> verifyTransaction demoHost demoTransaction ''not a key'' (demoClock + 1000) = Inl CryptoError
   \<and> verifyTransaction demoHost demoTransaction demoPublicKey (demoClock + 300000) = Inr False
   \<and> verifyTransaction demoHost (setProperty ''signature'' (JStr ''Zm9yZ2Vk'') demoTransaction)
       demoPublicKey (demoClock + 1000) = Inr False"
proof -
  have "verifyTransaction demoHost (restWithout ''signature'' demoTransaction) demoPublicKey
     (demoClock + 1000) = Inl TypeError"
    by (simp add: verifyTransaction_unfold verifiedMessage_restWithout_signature
        demo_verifiedMessage getProperty_restWithout getProperty_restWithout_same
        demo_created_at demo_window checkSignature_def Buffer_from_def)
  moreover have "verifyTransaction demoHost (setProperty ''signature'' JNull demoTransaction)
     demoPublicKey (demoClock + 1000) = Inl TypeError"
    by (simp add: demo_verify_other_signature checkSignature_def Buffer_from_def)
  moreover have "verifyTransaction demoHost demoTransaction ''not a key'' (demoClock + 1000)
     = Inl CryptoError"
    by (simp add: verifyTransaction_unfold demo_verifiedMessage demo_created_at demo_window
        demo_signature checkSignature_def demo_signature_bytes demoHost_fields(2)
        demoVerify_def demoPublicKey_def)
  moreover have "verifyTransaction demoHost
       (setProperty ''signature'' (JStr ''Zm9yZ2Vk'') demoTransaction)
       demoPublicKey (demoClock + 1000) = Inr False"
  proof -
    have "base64Bytes ''Zm9yZ2Vk'' = map of_char ''forged''" by code_simp
    then have "base64Bytes ''Zm9yZ2Vk'' \<noteq> demoSignatureBytes demoMessage"
      by (simp add: demoSignatureBytes_def)
    then show ?thesis
      by (simp add: demo_verify_other_signature checkSignature_def Buffer_from_def
          demoHost_fields demoVerify_def)
  qed
  ultimately show ?thesis
    by (simp add: demo_verify_stale)
qed

text \<open>
  C4, amended.  \<open>verifyTransaction\<close> returns a boolean without a reason, or throws.
  It throws what \<open>JSON.stringify\<close> throws for the transaction without its signature,
  and otherwise what \<open>new Date\<close> throws for \<open>created_at\<close>.  Otherwise, when the time
  check rejects, it returns \<open>false\<close>.  Otherwise it throws what \<open>Buffer.from\<close> throws for
  the \<open>signature\<close> property: a \<open>TypeError\<close> when the property is missing or holds
  \<open>null\<close>, a boolean, a Number or a BigInt, nothing when it holds a string, and what the
  platform decides when it holds an array or an object.  Otherwise the result is what
  the library's \<open>verify\<close> answers for the bytes of \<open>Buffer.from\<close>, and the library's error
  when it throws.
\<close>

theorem verifyTransaction_boolean_or_throw:
  "(\<forall>e. verifiedMessage transaction = Inl e
        \<longrightarrow> verifyTransaction H transaction publicKey currentDate = Inl e)
   \<and> (\<forall>message e. verifiedMessage transaction = Inr message
        \<and> newDate H (getProperty transaction ''created_at'') = Inl e
        \<longrightarrow> verifyTransaction H transaction publicKey currentDate = Inl e)
   \<and> (\<forall>message created_at. verifiedMessage transaction = Inr message
        \<and> newDate H (getProperty transaction ''created_at'') = Inr created_at
        \<and> windowExceeded currentDate created_at
        \<longrightarrow> verifyTransaction H transaction publicKey currentDate = Inr False)
   \<and> (\<forall>message created_at. verifiedMessage transaction = Inr message
        \<and> newDate H (getProperty transaction ''created_at'') = Inr created_at
        \<and> \<not> windowExceeded currentDate created_at
        \<longrightarrow> verifyTransaction H transaction publicKey currentDate
              = (case Buffer_from H (getProperty transaction ''signature'') of
                   Inl e \<Rightarrow> Inl e
                 | Inr bytes \<Rightarrow>
                     (case cryptoVerify H publicKey message bytes of
                        None \<Rightarrow> Inl CryptoError
                      | Some b \<Rightarrow> Inr b)))
   \<and> Buffer_from H JUndefined = Inl TypeError
   \<and> Buffer_from H JNull = Inl TypeError
   \<and> (\<forall>b. Buffer_from H (JBool b) = Inl TypeError)
   \<and> (\<forall>n. Buffer_from H (JNum n) = Inl TypeError)
   \<and> (\<forall>i. Buffer_from H (JBigInt i) = Inl TypeError)
   \<and> (\<forall>s. Buffer_from H (JStr s) = Inr (base64Decode H s))
   \<and> (\<forall>vs. Buffer_from H (JArr vs) = bufferFromObject H (JArr vs))
   \<and> (\<forall>ps. Buffer_from H (JObj ps) = bufferFromObject H (JObj ps))"
  by (simp add: verifyTransaction_unfold checkSignature_def Buffer_from_def)

theorem verifyTransaction_boolean_or_throw_witness:
  "verifiedMessage (restWithout ''signature'' demoTransaction) = Inr demoMessage
   \<and> newDate demoHost (getProperty (restWithout ''signature'' demoTransaction) ''created_at'')
       = Inr (Some demoClock)
   \<and> \<not> windowExceeded (demoClock + 1000) (Some demoClock)
   \<and> getProperty (restWithout ''signature'' demoTransaction) ''signature'' = JUndefined
   \<and> verifyTransaction demoHost (restWithout ''signature'' demoTransaction) demoPublicKey
        (demoClock + 1000) = Inl TypeError
   \<and> verifyTransaction demoHost (setProperty ''signature'' (JArr []) demoTransaction)
        demoPublicKey (demoClock + 1000) = Inr False"
proof -
  have m: "verifiedMessage (restWithout ''signature'' demoTransaction) = Inr demoMessage"
    by (simp add: verifiedMessage_restWithout_signature demo_verifiedMessage)
  have d: "newDate demoHost (getProperty (restWithout ''signature'' demoTransaction) ''created_at'')
       = Inr (Some demoClock)"
    by (simp add: getProperty_restWithout demo_created_at)
  have w: "\<not> windowExceeded (demoClock + 1000) (Some demoClock)"
    by (simp add: demo_window)
  have g: "getProperty (restWithout ''signature'' demoTransaction) ''signature'' = JUndefined"
    by (simp add: getProperty_restWithout_same)
  have a: "verifyTransaction demoHost (setProperty ''signature'' (JArr []) demoTransaction)
        demoPublicKey (demoClock + 1000) = Inr False"
    by (simp add: demo_verify_other_signature checkSignature_def Buffer_from_def
        demoHost_fields demoBufferFromObject_def demoVerify_def demoSignatureBytes_def)
  from verifyTransaction_boolean_or_throw [where H = demoHost
      and transaction = "restWithout ''signature'' demoTransaction"
      and publicKey = demoPublicKey and currentDate = "demoClock + 1000"] m d w g a
  show ?thesis by simp
qed

subsection \<open>The clock and the window (C5)\<close>

text \<open>
  C5, as the specification states it, fails: the clock is read inside the function and
  the window is a constant.  The same transaction and the same public key give \<open>true\<close>
  at one clock reading and \<open>false\<close> at another.
\<close>

theorem verifyTransaction_result_changes_with_clock:
  "verifyTransaction demoHost demoTransaction demoPublicKey (demoClock + 1000) = Inr True
   \<and> verifyTransaction demoHost demoTransaction demoPublicKey (demoClock + 300000) = Inr False
   \<and> maximumWindowMs = 300000"
  by (simp add: demo_verify_fresh demo_verify_stale maximumWindowMs_def)

text \<open>
  C5, amended.  The result of \<open>verifyTransaction(transaction, publicKey)\<close> is determined
  by its two arguments and the clock reading, and by the clock only through the time
  check: two readings on the same side of it give the same result.  The check compares
  with the constant 300000 ms, and never rejects a \<open>created_at\<close> that is not a date.
\<close>

theorem verifyTransaction_clock_dependence:
  "((case newDate H (getProperty transaction ''created_at'') of
       Inl e \<Rightarrow> True
     | Inr created_at \<Rightarrow> windowExceeded c1 created_at = windowExceeded c2 created_at)
     \<longrightarrow> verifyTransaction H transaction publicKey c1 = verifyTransaction H transaction publicKey c2)
   \<and> windowExceeded c1 (Some created) = (created + 300000 \<le> c1)
   \<and> \<not> windowExceeded c1 None"
  by (simp add: verifyTransaction_unfold windowExceeded_Some split: sum.splits)
     (simp add: windowExceeded_def)

theorem verifyTransaction_clock_dependence_witness:
  "newDate demoHost (getProperty demoTransaction ''created_at'') = Inr (Some demoClock)
   \<and> windowExceeded (demoClock + 1000) (Some demoClock)
       = windowExceeded (demoClock + 2000) (Some demoClock)
   \<and> verifyTransaction demoHost demoTransaction demoPublicKey (demoClock + 1000)
     = verifyTransaction demoHost demoTransaction demoPublicKey (demoClock + 2000)"
proof -
  have w: "windowExceeded (demoClock + 1000) (Some demoClock)
       = windowExceeded (demoClock + 2000) (Some demoClock)"
    by (simp add: demo_window)
  from verifyTransaction_clock_dependence [where H = demoHost
      and transaction = demoTransaction and ?c1.0 = "demoClock + 1000"
      and ?c2.0 = "demoClock + 2000" and publicKey = demoPublicKey] w demo_created_at
  show ?thesis by simp
qed

subsection \<open>What createTransaction returns (C6)\<close>

text \<open>
  C6, as the specification states it, fails: \<open>createTransaction\<close> has no transaction
  parameter.  Whatever transaction the caller has in mind, here one in EUR dated 2020, the
  result carries the fields of the literal and the clock's time.
\<close>

theorem createTransaction_ignores_supplied_transaction:
  "createTransaction demoHost demoPrivateKey demoClock = Inr demoTransaction
   \<and> \<not> signerContract suppliedExample demoTransaction
   \<and> getProperty demoTransaction ''currency'' = JStr ''USD''
   \<and> getProperty suppliedExample ''currency'' = JStr ''EUR''
   \<and> getProperty demoTransaction ''created_at'' = JStr ''2024-11-18T07:13:42.582Z''
   \<and> getProperty suppliedExample ''created_at'' = JStr ''2020-01-01T00:00:00.000Z''"
  by (simp add: demo_createTransaction signerContract_def suppliedExample_def
      demoTransaction_def demoUnsigned_def getProperty_def)

text \<open>
  C6, amended.  \<open>createTransaction\<close> takes a private key only.  The object literal
  always serializes.  When the library signs, the function returns the currency \<open>USD\<close>,
  the amount \<open>10.2\<close>, the remark \<open>Payment for service\<close>, \<open>created_at\<close> set to the
  clock's time in every call, and the signature as the last property; when the library
  throws, so does the function.
\<close>

theorem createTransaction_fixed_fields:
  "\<exists>message.
      JSON_stringify (unsignedValue H now) = Inr message
    \<and> (\<forall>signature. cryptoSign H privateKey message = Some signature \<longrightarrow>
          createTransaction H privateKey now =
            Inr [(''currency'', JStr ''USD''),
                 (''amount'', JNum ''10.2''),
                 (''remark'', JStr ''Payment for service''),
                 (''created_at'', JStr (toISOString H now)),
                 (''signature'', JStr signature)])
    \<and> (cryptoSign H privateKey message = None \<longrightarrow>
          createTransaction H privateKey now = Inl CryptoError)"
proof -
  obtain message where m: "JSON_stringify (unsignedValue H now) = Inr message"
    using JSON_stringify_unsignedValue by blast
  show ?thesis
    by (rule exI [of _ message])
       (simp add: m createTransaction_def setProperty_unsignedValue, simp add: unsignedValue_def)
qed

theorem createTransaction_fixed_fields_witness:
  "JSON_stringify (unsignedValue demoHost demoClock) = Inr demoMessage
   \<and> cryptoSign demoHost demoPrivateKey demoMessage = Some demoSignature
   \<and> createTransaction demoHost demoPrivateKey demoClock =
           Inr [(''currency'', JStr ''USD''),
                (''amount'', JNum ''10.2''),
                (''remark'', JStr ''Payment for service''),
                (''created_at'', JStr ''2024-11-18T07:13:42.582Z''),
                (''signature'', JStr demoSignature)]"
proof -
  have m: "JSON_stringify (unsignedValue demoHost demoClock) = Inr demoMessage"
    by (simp add: demo_unsignedValue demo_JSON_stringify)
  have s: "cryptoSign demoHost demoPrivateKey demoMessage = Some demoSignature"
    by (simp add: demoHost_fields demoSign_def demoSignature_def)
  from createTransaction_fixed_fields [where H = demoHost and now = demoClock
      and privateKey = demoPrivateKey] m s
  show ?thesis
    by (auto simp: demoHost_fields demo_isoString)
qed

subsection \<open>The serialization follows the property order (C7)\<close>

text \<open>
  C7, as the specification states it, fails: the order of the fields in the string is
  the order of the properties in the object.  The example's fields with \<open>amount\<close>
  inserted first make an object that serializes to another string, and with the same
  signature attached the reordered transaction does not verify.
\<close>

theorem key_order_changes_the_serialization:
  "set demoReordered = set demoUnsigned
   \<and> objectOf demoUnsigned = demoUnsigned
   \<and> objectOf demoReordered = demoReordered
   \<and> JSON_stringify (objectOf demoReordered) \<noteq> JSON_stringify (objectOf demoUnsigned)
   \<and> createTransaction demoHost demoPrivateKey demoClock
       = Inr (setProperty ''signature'' (JStr demoSignature) (objectOf demoUnsigned))
   \<and> verifyTransaction demoHost
        (setProperty ''signature'' (JStr demoSignature) (objectOf demoUnsigned))
        demoPublicKey (demoClock + 1000) = Inr True
   \<and> verifyTransaction demoHost
        (setProperty ''signature'' (JStr demoSignature) (objectOf demoReordered))
        demoPublicKey (demoClock + 1000) = Inr False"
proof -
  have s: "set demoReordered = set demoUnsigned"
    by (auto simp: demoReordered_def demoUnsigned_def)
  have o: "objectOf demoUnsigned = demoUnsigned" "objectOf demoReordered = demoReordered"
    by (rule objectOf_plain; simp add: demoUnsigned_def demoReordered_def arrayIndex_fields)+
  have n: "JSON_stringify demoReordered \<noteq> JSON_stringify demoUnsigned"
  proof
    assume "JSON_stringify demoReordered = JSON_stringify demoUnsigned"
    with flatObject_demo(2) flatObject_demo(1)
    have "definedProperties demoReordered = definedProperties demoUnsigned"
      by (rule JSON_stringify_inj)
    then show False
      by (simp add: definedProperties_def demoReordered_def demoUnsigned_def)
  qed
  have a: "setProperty ''signature'' (JStr demoSignature) demoUnsigned = demoTransaction"
    "setProperty ''signature'' (JStr demoSignature) demoReordered
       = demoReordered @ [(''signature'', JStr demoSignature)]"
    by (simp_all add: setProperty_new_signature demoUnsigned_def demoReordered_def
        demoTransaction_def)
  have g: "getProperty (demoReordered @ [(''signature'', JStr demoSignature)]) ''signature''
             = JStr demoSignature"
    "getProperty (demoReordered @ [(''signature'', JStr demoSignature)]) ''created_at''
             = getProperty demoTransaction ''created_at''"
    by (simp_all add: demoReordered_def demoTransaction_def demoUnsigned_def getProperty_def)
  have m: "verifiedMessage (demoReordered @ [(''signature'', JStr demoSignature)])
             = JSON_stringify demoReordered"
    by (simp add: verifiedMessage_def restWithout_def demoReordered_def)
  from flatObject_demo(2) obtain reordered
    where r: "JSON_stringify demoReordered = Inr reordered"
    by (simp add: JSON_stringify_flat)
  with n have "reordered \<noteq> demoMessage" by (simp add: demo_JSON_stringify)
  then have "verifyTransaction demoHost (demoReordered @ [(''signature'', JStr demoSignature)])
        demoPublicKey (demoClock + 1000) = Inr False"
    by (simp add: verifyTransaction_unfold g demo_created_at demo_window demo_checkSignature m r)
  with s o n demo_verify_fresh demo_createTransaction show ?thesis
    by (simp add: a)
qed

text \<open>
  C7, amended.  No field order is imposed: both functions call \<open>JSON.stringify\<close> on the
  object as it is, and the four field names, none of them an array index, are listed in
  the order of their insertion.  Take the four fields of a transaction the signer
  produced, inserted in any order, and attach the signer's signature.  The string the
  verifier serializes is the string that was signed exactly when the fields were inserted
  in the signer's order \<open>currency\<close>, \<open>amount\<close>, \<open>remark\<close>, \<open>created_at\<close>, and then the
  transaction is the signer's own.  In every other order the signature is checked against
  another string: on a platform whose library accepts that signature for no other
  message, the result is \<open>false\<close>, unless \<open>new Date\<close> throws.
\<close>

theorem field_order_decides_the_verified_message:
  assumes "createTransaction H privateKey now = Inr signed"
    and "set entries = set (unsignedValue H now)" and "distinct (map fst entries)"
  shows "objectOf entries = entries
       \<and> verifiedMessage signed = JSON_stringify (unsignedValue H now)
       \<and> verifiedMessage
            (setProperty ''signature'' (getProperty signed ''signature'') (objectOf entries))
           = JSON_stringify (objectOf entries)
       \<and> (JSON_stringify (objectOf entries) = JSON_stringify (unsignedValue H now))
           = (entries = unsignedValue H now)
       \<and> (entries = unsignedValue H now \<longrightarrow>
            setProperty ''signature'' (getProperty signed ''signature'') (objectOf entries)
              = signed)
       \<and> (\<forall>s message. entries \<noteq> unsignedValue H now
              \<and> getProperty signed ''signature'' = JStr s
              \<and> verifiedMessage signed = Inr message
              \<and> rejectsOtherMessages H publicKey message (base64Decode H s)
            \<longrightarrow> verifyTransaction H
                   (setProperty ''signature'' (getProperty signed ''signature'')
                      (objectOf entries))
                   publicKey currentDate
                  = (case newDate H (getProperty signed ''created_at'') of
                       Inl e \<Rightarrow> Inl e
                     | Inr created_at \<Rightarrow> Inr False))"
proof -
  let ?u = "unsignedValue H now"
  from assms(1) obtain sg where sg: "signed = ?u @ [(''signature'', JStr sg)]"
    by (rule signed_fields)
  note f = reordered_fields [OF assms(2,3)]
  have nk: "''signature'' \<notin> set (map fst ?u)" by (simp add: keys_unsignedValue)
  have gs: "getProperty signed ''signature'' = JStr sg"
    by (simp add: sg getProperty_append_same [OF nk])
  have t: "setProperty ''signature'' (getProperty signed ''signature'') (objectOf entries)
             = entries @ [(''signature'', JStr sg)]"
    by (simp add: f(1) gs setProperty_new_signature [OF f(4)])
  have m: "verifiedMessage signed = JSON_stringify ?u"
    by (simp add: sg verifiedMessage_def restWithout_append_signature [OF nk])
  have m': "verifiedMessage (entries @ [(''signature'', JStr sg)]) = JSON_stringify entries"
    by (simp add: verifiedMessage_def restWithout_append_signature [OF f(4)])
  have i: "(JSON_stringify entries = JSON_stringify ?u) = (entries = ?u)"
  proof
    assume "JSON_stringify entries = JSON_stringify ?u"
    with f(2) flatObject_unsignedValue
    have "definedProperties entries = definedProperties ?u"
      by (rule JSON_stringify_inj)
    with f(3) show "entries = ?u"
      by (simp add: definedProperties_def unsignedValue_def)
  qed simp
  have c: "getProperty (entries @ [(''signature'', JStr sg)]) ''created_at''
             = getProperty signed ''created_at''"
    by (simp add: sg getProperty_append_other f(5))
  have g: "getProperty (entries @ [(''signature'', JStr sg)]) ''signature'' = JStr sg"
    by (rule getProperty_append_same [OF f(4)])
  have v: "verifyTransaction H (entries @ [(''signature'', JStr sg)]) publicKey currentDate
             = (case newDate H (getProperty signed ''created_at'') of
                  Inl e \<Rightarrow> Inl e
                | Inr created_at \<Rightarrow> Inr False)"
    if "entries \<noteq> ?u" and "getProperty signed ''signature'' = JStr s"
      and "verifiedMessage signed = Inr message"
      and "rejectsOtherMessages H publicKey message (base64Decode H s)" for s message
  proof -
    from f(2) obtain reordered where r: "JSON_stringify entries = Inr reordered"
      by (simp add: JSON_stringify_flat)
    with that(1,3) i m have "reordered \<noteq> message" by auto
    with that(4) have "cryptoVerify H publicKey reordered (base64Decode H s) = Some False"
      by (simp add: rejectsOtherMessages_def)
    moreover from that(2) gs have "s = sg" by simp
    ultimately show ?thesis
      by (simp add: verifyTransaction_unfold m' r c g checkSignature_def Buffer_from_def
          split: sum.splits)
  qed
  have e: "entries = ?u \<longrightarrow>
            setProperty ''signature'' (getProperty signed ''signature'') (objectOf entries)
              = signed"
    by (simp only: t) (simp add: sg)
  note v' = v [folded t]
  have i': "(JSON_stringify (objectOf entries) = JSON_stringify ?u) = (entries = ?u)"
    by (simp only: f(1) i)
  have m'': "verifiedMessage
            (setProperty ''signature'' (getProperty signed ''signature'') (objectOf entries))
           = JSON_stringify (objectOf entries)"
    by (simp only: t m') (simp only: f(1))
  from f(1) m m'' i' e v' show ?thesis by blast
qed

theorem field_order_decides_the_verified_message_witness:
  "createTransaction demoHost demoPrivateKey demoClock = Inr demoTransaction
   \<and> set demoReordered = set (unsignedValue demoHost demoClock)
   \<and> distinct (map fst demoReordered)
   \<and> demoReordered \<noteq> unsignedValue demoHost demoClock
   \<and> getProperty demoTransaction ''signature'' = JStr demoSignature
   \<and> verifiedMessage demoTransaction = Inr demoMessage
   \<and> rejectsOtherMessages demoHost demoPublicKey demoMessage
        (base64Decode demoHost demoSignature)
   \<and> objectOf demoReordered = demoReordered
   \<and> JSON_stringify (objectOf demoReordered) \<noteq> JSON_stringify (unsignedValue demoHost demoClock)
   \<and> verifyTransaction demoHost
        (setProperty ''signature'' (JStr demoSignature) (objectOf demoReordered))
        demoPublicKey (demoClock + 1000) = Inr False"
proof -
  have s: "set demoReordered = set (unsignedValue demoHost demoClock)"
    by (auto simp: demoReordered_def demo_unsignedValue demoUnsigned_def)
  have d: "distinct (map fst demoReordered)"
    by (simp add: demoReordered_def)
  have n: "demoReordered \<noteq> unsignedValue demoHost demoClock"
    by (simp add: demoReordered_def demo_unsignedValue demoUnsigned_def)
  have r: "rejectsOtherMessages demoHost demoPublicKey demoMessage
        (base64Decode demoHost demoSignature)"
    using demo_rejectsOtherMessages demo_signature_bytes by (simp add: Buffer_from_def)
  have o: "objectOf demoReordered = demoReordered"
    by (rule objectOf_plain) (simp_all add: demoReordered_def arrayIndex_fields)
  from field_order_decides_the_verified_message [OF demo_createTransaction s d,
      of demoPublicKey "demoClock + 1000"]
    demo_createTransaction s d n demo_signature demo_verifiedMessage r demo_created_at
  show ?thesis by (simp add: o demo_unsignedValue demo_JSON_stringify)
qed

subsection \<open>Altered fields (C8)\<close>

text \<open>
  C8, as the specification states it, fails where the altered field is \<open>created_at\<close>
  and the new date is old: the example transaction with \<open>created_at\<close> moved ten minutes
  back and its signature kept is rejected by the time check, which returns before the
  signature is looked at.  The call does not end with the signature check's \<open>false\<close>.
\<close>

theorem backdated_transaction_rejected_by_time_check:
  "createTransaction demoHost demoPrivateKey demoClock = Inr demoTransaction
   \<and> demoBackdated = setProperty ''created_at'' (JStr ''2024-11-18T07:03:42.582Z'') demoTransaction
   \<and> getProperty demoBackdated ''created_at'' \<noteq> getProperty demoTransaction ''created_at''
   \<and> getProperty demoBackdated ''signature'' = getProperty demoTransaction ''signature''
   \<and> verifyTransaction demoHost demoBackdated demoPublicKey (demoClock + 1000) = Inr False
   \<and> verifyTransaction_site demoHost demoBackdated demoPublicKey (demoClock + 1000)
       = Inr WindowReturn
   \<and> verifyTransaction_site demoHost demoBackdated demoPublicKey (demoClock + 1000)
       \<noteq> Inr (VerifyReturn False)"
proof -
  have g: "getProperty demoBackdated ''created_at'' = JStr ''2024-11-18T07:03:42.582Z''"
    "getProperty demoBackdated ''signature'' = getProperty demoTransaction ''signature''"
    by (simp_all add: demoBackdated_def getProperty_setProperty)
  have d: "newDate demoHost (getProperty demoBackdated ''created_at'')
             = Inr (Some (demoClock - 600000))"
    by (simp add: g demoHost_fields demoNewDate_def demo_isoTime_backdated)
  have b: "demoBackdated =
     [(''currency'', JStr ''USD''),
      (''amount'', JNum ''10.2''),
      (''remark'', JStr ''Payment for service''),
      (''created_at'', JStr ''2024-11-18T07:03:42.582Z''),
      (''signature'', JStr demoSignature)]"
    by (simp add: demoBackdated_def demoTransaction_def demoUnsigned_def setProperty_def)
  have "flatObject (restWithout ''signature'' demoBackdated)"
    by (simp add: b restWithout_def flatObject_def wfNumber_def numberChars_def)
  then have m: "\<exists>message. verifiedMessage demoBackdated = Inr message"
    by (simp add: verifiedMessage_def JSON_stringify_flat)
  then obtain message where m: "verifiedMessage demoBackdated = Inr message" ..
  have "verifyTransaction_site demoHost demoBackdated demoPublicKey (demoClock + 1000)
       = Inr WindowReturn"
    "verifyTransaction demoHost demoBackdated demoPublicKey (demoClock + 1000) = Inr False"
    by (simp_all add: verifyTransaction_site_unfold verifyTransaction_unfold m d
        windowExceeded_Some)
  with g show ?thesis
    by (simp add: demo_createTransaction demoBackdated_def demoTransaction_def demoUnsigned_def
        getProperty_def)
qed

text \<open>
  C8, amended.  Take a transaction the signer produced and give one of \<open>amount\<close>,
  \<open>currency\<close>, \<open>remark\<close>, \<open>created_at\<close> another value, of any kind, keeping the
  signature.  What \<open>JSON.stringify\<close> gives for the altered transaction is then not the
  string that was signed: it is another string, or an error (never for a primitive
  value that is no BigInt), which the call throws, as it throws the error of
  \<open>new Date\<close> for an altered \<open>created_at\<close>.  Otherwise the call
  ends at the time check when the altered \<open>created_at\<close> is too old, and else with the
  answer of the library for the kept signature on the changed string; on a platform
  whose library accepts that signature for no other message, the result is \<open>false\<close>
  either way.
\<close>

theorem altered_field_changes_verified_message:
  assumes "createTransaction H privateKey now = Inr signed"
    and "field \<in> {''amount'', ''currency'', ''remark'', ''created_at''}"
    and "v \<noteq> getProperty signed field" and "wfValue v"
  shows "verifiedMessage (setProperty field v signed) \<noteq> verifiedMessage signed
       \<and> getProperty (setProperty field v signed) ''signature'' = getProperty signed ''signature''
       \<and> (flatValue v \<longrightarrow>
            (\<exists>altered. verifiedMessage (setProperty field v signed) = Inr altered))
       \<and> verifyTransaction_site H (setProperty field v signed) publicKey currentDate
           = (case verifiedMessage (setProperty field v signed) of
                Inl e \<Rightarrow> Inl e
              | Inr altered \<Rightarrow>
                  (case newDate H (getProperty (setProperty field v signed) ''created_at'') of
                     Inl e \<Rightarrow> Inl e
                   | Inr created_at \<Rightarrow>
                       if windowExceeded currentDate created_at then Inr WindowReturn
                       else map_sum id VerifyReturn
                              (checkSignature H publicKey altered
                                 (getProperty signed ''signature''))))
       \<and> (\<forall>s message. getProperty signed ''signature'' = JStr s
              \<and> verifiedMessage signed = Inr message
              \<and> rejectsOtherMessages H publicKey message (base64Decode H s)
            \<longrightarrow> verifyTransaction H (setProperty field v signed) publicKey currentDate
                  = (case verifiedMessage (setProperty field v signed) of
                       Inl e \<Rightarrow> Inl e
                     | Inr altered \<Rightarrow>
                         (case newDate H
                                 (getProperty (setProperty field v signed) ''created_at'') of
                            Inl e \<Rightarrow> Inl e
                          | Inr created_at \<Rightarrow> Inr False)))"
proof -
  let ?u = "unsignedValue H now"
  from assms(1) obtain sg where sg: "signed = ?u @ [(''signature'', JStr sg)]"
    by (rule signed_fields)
  from assms(2) have k: "field \<in> set (map fst ?u)" "field \<noteq> ''signature''"
    by (auto simp: unsignedValue_def)
  have nk: "''signature'' \<notin> set (map fst ?u)"
    "''signature'' \<notin> set (map fst (setProperty field v ?u))"
    by (simp_all add: keys_setProperty [OF k(1)] keys_unsignedValue)
  have t: "setProperty field v signed = setProperty field v ?u @ [(''signature'', JStr sg)]"
    by (simp add: sg setProperty_append_signature [OF k(1)])
  have old: "getProperty signed field = getProperty ?u field"
    using assms(2) by (auto simp: sg getProperty_def unsignedValue_def)
  have m: "verifiedMessage signed = JSON_stringify ?u"
    by (simp add: sg verifiedMessage_def restWithout_append_signature [OF nk(1)])
  have m': "verifiedMessage (setProperty field v signed) = JSON_stringify (setProperty field v ?u)"
    by (simp add: t verifiedMessage_def restWithout_append_signature [OF nk(2)])
  from assms(3) old have "v \<noteq> getProperty ?u field" by simp
  from tampered_message_differs [OF assms(2) this assms(4)] m m'
  have ne: "verifiedMessage (setProperty field v signed) \<noteq> verifiedMessage signed" by simp
  have g: "getProperty (setProperty field v signed) ''signature'' = getProperty signed ''signature''"
    using k(2) by (simp add: getProperty_setProperty)
  have fl: "\<exists>altered. verifiedMessage (setProperty field v signed) = Inr altered"
    if "flatValue v"
    using flatObject_setProperty [OF flatObject_unsignedValue that, of field H now]
    by (simp add: m' JSON_stringify_flat)
  have site: "verifyTransaction_site H (setProperty field v signed) publicKey currentDate
           = (case verifiedMessage (setProperty field v signed) of
                Inl e \<Rightarrow> Inl e
              | Inr altered \<Rightarrow>
                  (case newDate H (getProperty (setProperty field v signed) ''created_at'') of
                     Inl e \<Rightarrow> Inl e
                   | Inr created_at \<Rightarrow>
                       if windowExceeded currentDate created_at then Inr WindowReturn
                       else map_sum id VerifyReturn
                              (checkSignature H publicKey altered
                                 (getProperty signed ''signature''))))"
    by (simp only: verifyTransaction_site_unfold g)
  have "verifyTransaction H (setProperty field v signed) publicKey currentDate
          = (case verifiedMessage (setProperty field v signed) of
               Inl e \<Rightarrow> Inl e
             | Inr altered \<Rightarrow>
                 (case newDate H (getProperty (setProperty field v signed) ''created_at'') of
                    Inl e \<Rightarrow> Inl e
                  | Inr created_at \<Rightarrow> Inr False))"
    if "getProperty signed ''signature'' = JStr s" and "verifiedMessage signed = Inr message"
      and "rejectsOtherMessages H publicKey message (base64Decode H s)" for s message
    using that ne
    by (auto simp: verifyTransaction_unfold g checkSignature_def Buffer_from_def
        rejectsOtherMessages_def split: sum.splits)
  with ne g fl site show ?thesis by blast
qed

theorem altered_field_changes_verified_message_witness:
  "createTransaction demoHost demoPrivateKey demoClock = Inr demoTransaction
   \<and> ''amount'' \<in> {''amount'', ''currency'', ''remark'', ''created_at''}
   \<and> JNum ''1000'' \<noteq> getProperty demoTransaction ''amount''
   \<and> wfValue (JNum ''1000'')
   \<and> getProperty demoTransaction ''signature'' = JStr demoSignature
   \<and> verifiedMessage demoTransaction = Inr demoMessage
   \<and> rejectsOtherMessages demoHost demoPublicKey demoMessage
        (base64Decode demoHost demoSignature)
   \<and> verifiedMessage (setProperty ''amount'' (JNum ''1000'') demoTransaction)
       \<noteq> verifiedMessage demoTransaction
   \<and> verifyTransaction demoHost (setProperty ''amount'' (JNum ''1000'') demoTransaction)
       demoPublicKey (demoClock + 1000) = Inr False"
proof -
  have f: "''amount'' \<in> {''amount'', ''currency'', ''remark'', ''created_at''}" by simp
  have v: "JNum ''1000'' \<noteq> getProperty demoTransaction ''amount''"
    by (simp add: demoTransaction_def demoUnsigned_def getProperty_def)
  have w: "wfValue (JNum ''1000'')"
    by (simp add: wfNumber_def numberChars_def)
  have r: "rejectsOtherMessages demoHost demoPublicKey demoMessage
        (base64Decode demoHost demoSignature)"
    using demo_rejectsOtherMessages demo_signature_bytes by (simp add: Buffer_from_def)
  have a: "setProperty ''amount'' (JNum ''1000'') demoTransaction =
     [(''currency'', JStr ''USD''),
      (''amount'', JNum ''1000''),
      (''remark'', JStr ''Payment for service''),
      (''created_at'', JStr ''2024-11-18T07:13:42.582Z''),
      (''signature'', JStr demoSignature)]"
    by (simp add: demoTransaction_def demoUnsigned_def setProperty_def)
  have "flatObject (restWithout ''signature''
          (setProperty ''amount'' (JNum ''1000'') demoTransaction))"
    by (simp add: a restWithout_def flatObject_def wfNumber_def numberChars_def)
  then obtain altered
    where m: "verifiedMessage (setProperty ''amount'' (JNum ''1000'') demoTransaction)
                = Inr altered"
    by (simp add: verifiedMessage_def JSON_stringify_flat)
  have d: "newDate demoHost
             (getProperty (setProperty ''amount'' (JNum ''1000'') demoTransaction) ''created_at'')
           = Inr (Some demoClock)"
    using demo_created_at by (simp add: getProperty_setProperty)
  from altered_field_changes_verified_message [OF demo_createTransaction f v w,
      of demoPublicKey "demoClock + 1000"]
    demo_createTransaction f v w demo_signature demo_verifiedMessage r m d
  show ?thesis by simp
qed

subsection \<open>Old transactions (C9)\<close>

text \<open>
  C9, as the specification states it, fails.  The time check is not the first thing the
  function does: the verifier is created and fed the serialized transaction before it.
  So a stale input can throw: the example transaction with a BigInt for its amount, ten
  minutes old, makes \<open>JSON.stringify\<close> throw a \<open>TypeError\<close>.  And for the example
  transaction itself, ten minutes old, the calls \<open>createVerify\<close> and \<open>update\<close> have been
  made when the time check returns.
\<close>

theorem stale_transaction_with_bigint_throws:
  "newDate demoHost (getProperty demoBigInt ''created_at'') = Inr (Some demoClock)
   \<and> demoClock + 5 * 60 * 1000 \<le> demoClock + 600000
   \<and> getProperty demoBigInt ''amount'' = JBigInt 10
   \<and> verifyTransaction demoHost demoBigInt demoPublicKey (demoClock + 600000) = Inl TypeError
   \<and> verifyTransaction_trace demoHost demoTransaction demoPublicKey (demoClock + 600000)
       = ([CreateVerify ALGORITHM, VerifierUpdate demoMessage], Inr WindowReturn)"
proof -
  have g: "getProperty demoBigInt ''created_at'' = getProperty demoTransaction ''created_at''"
    "getProperty demoBigInt ''amount'' = JBigInt 10"
    by (simp_all add: demoBigInt_def getProperty_setProperty)
  have b: "demoBigInt = [(''currency'', JStr ''USD''), (''amount'', JBigInt 10),
      (''remark'', JStr ''Payment for service''),
      (''created_at'', JStr ''2024-11-18T07:13:42.582Z''),
      (''signature'', JStr demoSignature)]"
    by (simp add: demoBigInt_def demoTransaction_def demoUnsigned_def setProperty_def)
  have "verifiedMessage demoBigInt = Inl TypeError"
    by (simp add: b verifiedMessage_def restWithout_def JSON_stringify_def)
  then have "verifyTransaction demoHost demoBigInt demoPublicKey (demoClock + 600000)
       = Inl TypeError"
    by (simp add: verifyTransaction_unfold)
  moreover have "verifyTransaction_trace demoHost demoTransaction demoPublicKey
       (demoClock + 600000)
       = ([CreateVerify ALGORITHM, VerifierUpdate demoMessage], Inr WindowReturn)"
    by (simp add: verifyTransaction_trace_unfold demo_verifiedMessage demo_created_at demo_window)
  ultimately show ?thesis
    by (simp add: g demo_created_at)
qed

text \<open>
  C9, amended.  When \<open>created_at\<close> is a date at least five minutes before the clock
  reading and \<open>JSON.stringify\<close> serializes the transaction without its signature,
  \<open>verifyTransaction\<close> returns \<open>false\<close> at the time check, after the verifier was created
  and fed that string, for every platform, every public key and every value of the
  \<open>signature\<close> property, present or absent: the signature is neither decoded nor
  verified, and nothing is thrown.  When \<open>JSON.stringify\<close> throws, the call throws its
  error.
\<close>

theorem stale_transaction_rejected_by_time_check_alone:
  assumes "newDate H (getProperty transaction ''created_at'') = Inr (Some created)"
    and "created + 5 * 60 * 1000 \<le> currentDate"
  shows "(\<forall>message signature key.
            verifiedMessage transaction = Inr message \<longrightarrow>
              verifyTransaction H transaction key currentDate = Inr False
            \<and> verifyTransaction_trace H transaction key currentDate
                = ([CreateVerify ALGORITHM, VerifierUpdate message], Inr WindowReturn)
            \<and> verifyTransaction H (setProperty ''signature'' signature transaction) key currentDate
                = Inr False
            \<and> verifyTransaction_trace H (setProperty ''signature'' signature transaction) key
                currentDate
                = ([CreateVerify ALGORITHM, VerifierUpdate message], Inr WindowReturn)
            \<and> verifyTransaction H (restWithout ''signature'' transaction) key currentDate
                = Inr False
            \<and> verifyTransaction_trace H (restWithout ''signature'' transaction) key currentDate
                = ([CreateVerify ALGORITHM, VerifierUpdate message], Inr WindowReturn))
       \<and> (\<forall>e signature key.
            verifiedMessage transaction = Inl e \<longrightarrow>
              verifyTransaction H transaction key currentDate = Inl e
            \<and> verifyTransaction H (setProperty ''signature'' signature transaction) key currentDate
                = Inl e)"
  using assms
  by (simp add: verifyTransaction_unfold verifyTransaction_trace_unfold windowExceeded_Some
      verifiedMessage_setProperty_signature verifiedMessage_restWithout_signature
      getProperty_setProperty getProperty_restWithout)

theorem stale_transaction_rejected_by_time_check_alone_witness:
  "newDate demoHost (getProperty demoTransaction ''created_at'') = Inr (Some demoClock)
   \<and> demoClock + 5 * 60 * 1000 \<le> demoClock + 300000
   \<and> verifiedMessage demoTransaction = Inr demoMessage
   \<and> verifyTransaction demoHost demoTransaction demoPublicKey (demoClock + 300000) = Inr False
   \<and> verifyTransaction demoHost (setProperty ''signature'' (JBigInt 7) demoTransaction)
        ''not a key'' (demoClock + 300000) = Inr False
   \<and> verifyTransaction demoHost (restWithout ''signature'' demoTransaction)
        ''not a key'' (demoClock + 300000) = Inr False"
proof -
  have w: "demoClock + 5 * 60 * 1000 \<le> demoClock + 300000" by simp
  from stale_transaction_rejected_by_time_check_alone [OF demo_created_at w] demo_created_at w
    demo_verifiedMessage
  show ?thesis by simp
qed

subsection \<open>Transactions dated in the future (C10)\<close>



end
